theory Spec2Isabelle
  imports Main
begin

section \<open>Byte strings and the string helpers of the Go standard library\<close>

text \<open>
  A Go \<^verbatim>\<open>string\<close> or \<^verbatim>\<open>[]byte\<close> is a sequence of 8-bit bytes, so it is an
  Isabelle \<^typ>\<open>string\<close> (a list of 8-bit characters). Non-ASCII text is its UTF-8
  encoding, byte by byte.
\<close>

definition byte :: "char \<Rightarrow> nat" where
  "byte c = of_char c"

definition isUpper :: "char \<Rightarrow> bool" where
  "isUpper c = (65 \<le> byte c \<and> byte c \<le> 90)"

definition isLower :: "char \<Rightarrow> bool" where
  "isLower c = (97 \<le> byte c \<and> byte c \<le> 122)"

definition isAlpha :: "char \<Rightarrow> bool" where
  "isAlpha c = (isUpper c \<or> isLower c)"

definition isDigit :: "char \<Rightarrow> bool" where
  "isDigit c = (48 \<le> byte c \<and> byte c \<le> 57)"

definition toLower :: "char \<Rightarrow> char" where
  "toLower c = (if isUpper c then char_of (byte c + 32) else c)"

definition toUpper :: "char \<Rightarrow> char" where
  "toUpper c = (if isLower c then char_of (byte c - 32) else c)"

definition HasPrefix :: "string \<Rightarrow> string \<Rightarrow> bool" where
  "HasPrefix s p = (take (length p) s = p)"

definition HasSuffix :: "string \<Rightarrow> string \<Rightarrow> bool" where
  "HasSuffix s p = (length p \<le> length s \<and> drop (length s - length p) s = p)"

text \<open>\<^verbatim>\<open>strings.TrimSuffix\<close>: removes one occurrence of the suffix, if present.\<close>

definition TrimSuffix :: "string \<Rightarrow> string \<Rightarrow> string" where
  "TrimSuffix s p = (if HasSuffix s p then take (length s - length p) s else s)"

text \<open>\<^verbatim>\<open>strings.IndexByte\<close> and \<^verbatim>\<open>strings.LastIndexByte\<close>; \<open>None\<close> is Go's \<open>-1\<close>.\<close>

fun IndexByte :: "string \<Rightarrow> char \<Rightarrow> nat option" where
  "IndexByte [] c = None"
| "IndexByte (x # xs) c = (if x = c then Some 0 else map_option Suc (IndexByte xs c))"

definition LastIndexByte :: "string \<Rightarrow> char \<Rightarrow> nat option" where
  "LastIndexByte s c = map_option (\<lambda>i. length s - 1 - i) (IndexByte (rev s) c)"

text \<open>\<^verbatim>\<open>strings.Index\<close> for a non-empty separator.\<close>

fun Index :: "string \<Rightarrow> string \<Rightarrow> nat option" where
  "Index [] sep = (if sep = [] then Some 0 else None)"
| "Index (x # xs) sep =
     (if HasPrefix (x # xs) sep then Some 0 else map_option Suc (Index xs sep))"

text \<open>\<^verbatim>\<open>strings.Cut\<close> on a one-byte separator: before, after, found.\<close>

definition Cut :: "string \<Rightarrow> char \<Rightarrow> string \<times> string \<times> bool" where
  "Cut s c = (case IndexByte s c of
                None \<Rightarrow> (s, [], False)
              | Some i \<Rightarrow> (take i s, drop (Suc i) s, True))"

definition Count :: "string \<Rightarrow> char \<Rightarrow> nat" where
  "Count s c = length (filter (\<lambda>x. x = c) s)"

subsection \<open>\<^verbatim>\<open>strings.TrimSpace\<close>\<close>

text \<open>
  \<^verbatim>\<open>strings.TrimSpace\<close> removes all leading and trailing white space as Unicode
  defines it (\<^verbatim>\<open>unicode.IsSpace\<close>). On bytes these are the six ASCII characters
  tab, line feed, vertical tab, form feed, carriage return and space, and the UTF-8
  encodings of U+0085, U+00A0 (two bytes) and of U+1680, U+2000 to U+200A, U+2028,
  U+2029, U+202F, U+205F and U+3000 (three bytes). The decoder is strict, so a white
  space rune is read exactly from its canonical encoding.
\<close>

definition asciiSpace :: "char \<Rightarrow> bool" where
  "asciiSpace c = (byte c \<in> {9, 10, 11, 12, 13, 32})"

definition space2 :: "char \<Rightarrow> char \<Rightarrow> bool" where
  "space2 a b = (byte a = 0xC2 \<and> byte b \<in> {0x85, 0xA0})"

definition space3 :: "char \<Rightarrow> char \<Rightarrow> char \<Rightarrow> bool" where
  "space3 a b c =
     ((byte a = 0xE1 \<and> byte b = 0x9A \<and> byte c = 0x80) \<or>
      (byte a = 0xE2 \<and> byte b = 0x80 \<and>
         ((0x80 \<le> byte c \<and> byte c \<le> 0x8A) \<or> byte c \<in> {0xA8, 0xA9, 0xAF})) \<or>
      (byte a = 0xE2 \<and> byte b = 0x81 \<and> byte c = 0x9F) \<or>
      (byte a = 0xE3 \<and> byte b = 0x80 \<and> byte c = 0x80))"

fun TrimLeftSpace :: "string \<Rightarrow> string" where
  "TrimLeftSpace [] = []"
| "TrimLeftSpace [a] = (if asciiSpace a then [] else [a])"
| "TrimLeftSpace [a, b] =
     (if asciiSpace a then TrimLeftSpace [b]
      else if space2 a b then [] else [a, b])"
| "TrimLeftSpace (a # b # c # s) =
     (if asciiSpace a then TrimLeftSpace (b # c # s)
      else if space2 a b then TrimLeftSpace (c # s)
      else if space3 a b c then TrimLeftSpace s
      else a # b # c # s)"

text \<open>
  Trailing white space, read backwards on the reversed string: the last rune is a white
  space exactly when the string ends with one of the encodings.
\<close>

fun TrimRightSpace_rev :: "string \<Rightarrow> string" where
  "TrimRightSpace_rev [] = []"
| "TrimRightSpace_rev [a] = (if asciiSpace a then [] else [a])"
| "TrimRightSpace_rev [b, a] =
     (if asciiSpace b then TrimRightSpace_rev [a]
      else if space2 a b then [] else [b, a])"
| "TrimRightSpace_rev (c # b # a # s) =
     (if asciiSpace c then TrimRightSpace_rev (b # a # s)
      else if space2 b c then TrimRightSpace_rev (a # s)
      else if space3 a b c then TrimRightSpace_rev s
      else c # b # a # s)"

definition TrimRightSpace :: "string \<Rightarrow> string" where
  "TrimRightSpace s = rev (TrimRightSpace_rev (rev s))"

definition TrimSpace :: "string \<Rightarrow> string" where
  "TrimSpace s = TrimRightSpace (TrimLeftSpace s)"

section \<open>Errors\<close>

text \<open>
  \<^verbatim>\<open>APIError\<close> (client.go): the error value built from a response whose status
  is 400 or more. \<open>Raw\<close> is a \<^verbatim>\<open>json.RawMessage\<close>, a byte slice.
\<close>

record APIError =
  StatusCode :: int
  Message :: string
  Code :: string
  Raw :: string

text \<open>
  Go error values. \<open>ErrorString\<close> is \<^verbatim>\<open>errors.New\<close> or \<^verbatim>\<open>fmt.Errorf\<close> without
  \<^verbatim>\<open>%w\<close>; \<open>WrapError p e\<close> is \<^verbatim>\<open>fmt.Errorf(p + "%w", e)\<close>; \<open>URLError\<close>,
  \<open>EscapeError\<close> and \<open>InvalidHostError\<close> are the error types of \<^verbatim>\<open>net/url\<close>;
  \<open>SyntaxError\<close> and \<open>UnmarshalTypeError\<close> those of \<^verbatim>\<open>encoding/json\<close>;
  \<open>API\<close> is a \<^verbatim>\<open>*APIError\<close>; \<open>ExternalError\<close> is an error produced outside
  the package (transport, body reader, encoder). A run-time panic is the result
  \<open>Panic\<close>, so that it is a value like every other outcome.
\<close>

datatype error =
    ErrorString string
  | WrapError string error
  | EscapeError string
  | InvalidHostError string
  | URLError string string error
  | SyntaxError
  | UnmarshalTypeError string string
  | API APIError
  | ExternalError string
  | Panic string

section \<open>A model of \<^verbatim>\<open>net/url\<close>\<close>

text \<open>
  The package calls \<^verbatim>\<open>url.Parse\<close>, \<^verbatim>\<open>URL.IsAbs\<close>, \<^verbatim>\<open>URL.ResolveReference\<close>,
  \<^verbatim>\<open>URL.String\<close>, \<^verbatim>\<open>url.PathEscape\<close> and \<^verbatim>\<open>Values.Encode\<close> of the Go standard
  library. They are modelled here after the library's algorithms (Go 1.21), function by
  function and with the library's names.
\<close>

record Userinfo =
  username :: string
  password :: string
  passwordSet :: bool

record URL =
  Scheme :: string
  Opaque :: string
  User :: "Userinfo option"
  Host :: string
  Path :: string
  RawPath :: string
  OmitHost :: bool
  ForceQuery :: bool
  RawQuery :: string
  Fragment :: string
  RawFragment :: string

definition emptyURL :: URL where
  "emptyURL = \<lparr>Scheme = [], Opaque = [], User = None, Host = [], Path = [], RawPath = [],
     OmitHost = False, ForceQuery = False, RawQuery = [], Fragment = [], RawFragment = []\<rparr>"

datatype encoding =
  encodePath | encodePathSegment | encodeHost | encodeZone | encodeUserPassword
  | encodeQueryComponent | encodeFragment

definition shouldEscape :: "char \<Rightarrow> encoding \<Rightarrow> bool" where
  "shouldEscape c mode =
     (if isAlpha c \<or> isDigit c then False
      else if (mode = encodeHost \<or> mode = encodeZone) \<and> c \<in> set ''!$&'()*+,;=:[]<>\"'' then False
      else if c \<in> set ''-_.~'' then False
      else if c \<in> set ''$&+,/:;=?@'' \<and> mode = encodePath then c = CHR ''?''
      else if c \<in> set ''$&+,/:;=?@'' \<and> mode = encodePathSegment then c \<in> set ''/;,?''
      else if c \<in> set ''$&+,/:;=?@'' \<and> mode = encodeUserPassword then c \<in> set ''@/?:''
      else if c \<in> set ''$&+,/:;=?@'' \<and> mode = encodeQueryComponent then True
      else if c \<in> set ''$&+,/:;=?@'' \<and> mode = encodeFragment then False
      else if mode = encodeFragment \<and> c \<in> set ''!()*'' then False
      else True)"

definition ishex :: "char \<Rightarrow> bool" where
  "ishex c = (isDigit c \<or> (97 \<le> byte c \<and> byte c \<le> 102) \<or> (65 \<le> byte c \<and> byte c \<le> 70))"

definition unhex :: "char \<Rightarrow> nat" where
  "unhex c = (if isDigit c then byte c - 48
              else if 97 \<le> byte c \<and> byte c \<le> 102 then byte c - 97 + 10
              else if 65 \<le> byte c \<and> byte c \<le> 70 then byte c - 65 + 10
              else 0)"

definition upperhex :: "nat \<Rightarrow> char" where
  "upperhex n = ''0123456789ABCDEF'' ! (n mod 16)"

text \<open>\<^verbatim>\<open>escape\<close>: percent-encoding of every byte that \<open>shouldEscape\<close> selects.\<close>

definition escape :: "string \<Rightarrow> encoding \<Rightarrow> string" where
  "escape s mode =
     concat (map (\<lambda>c. if c = CHR '' '' \<and> mode = encodeQueryComponent then ''+''
                       else if shouldEscape c mode
                         then [CHR ''%'', upperhex (byte c div 16), upperhex (byte c mod 16)]
                       else [c]) s)"

definition PathEscape :: "string \<Rightarrow> string" where
  "PathEscape s = escape s encodePathSegment"

definition QueryEscape :: "string \<Rightarrow> string" where
  "QueryEscape s = escape s encodeQueryComponent"

text \<open>
  \<^verbatim>\<open>unescape\<close>: the library validates the whole string from left to right and then
  decodes it; the model does both in one pass and returns the leftmost error.
\<close>

fun unescape :: "string \<Rightarrow> encoding \<Rightarrow> error + string" where
  "unescape [] mode = Inr []"
| "unescape (c # cs) mode =
     (if c = CHR ''%'' then
        (case cs of
           a # b # rest \<Rightarrow>
             (if \<not> ishex a \<or> \<not> ishex b then Inl (EscapeError [c, a, b])
              else if mode = encodeHost \<and> unhex a < 8 \<and> [c, a, b] \<noteq> ''%25''
                then Inl (EscapeError [c, a, b])
              else if mode = encodeZone \<and> [c, a, b] \<noteq> ''%25''
                      \<and> char_of (unhex a * 16 + unhex b) \<noteq> CHR '' ''
                      \<and> shouldEscape (char_of (unhex a * 16 + unhex b)) encodeHost
                then Inl (EscapeError [c, a, b])
              else (case unescape rest mode of
                      Inl e \<Rightarrow> Inl e
                    | Inr t \<Rightarrow> Inr (char_of (unhex a * 16 + unhex b) # t)))
         | _ \<Rightarrow> Inl (EscapeError (c # cs)))
      else if c = CHR ''+'' then
        (case unescape cs mode of
           Inl e \<Rightarrow> Inl e
         | Inr t \<Rightarrow> Inr ((if mode = encodeQueryComponent then CHR '' '' else c) # t))
      else if (mode = encodeHost \<or> mode = encodeZone) \<and> byte c < 0x80
                \<and> shouldEscape c encodeHost
        then Inl (InvalidHostError [c])
      else (case unescape cs mode of Inl e \<Rightarrow> Inl e | Inr t \<Rightarrow> Inr (c # t)))"

text \<open>\<^verbatim>\<open>URL.setPath\<close>, \<^verbatim>\<open>URL.setFragment\<close>, \<^verbatim>\<open>validEncoded\<close>, \<^verbatim>\<open>URL.EscapedPath\<close>,
  \<^verbatim>\<open>URL.EscapedFragment\<close>.\<close>

definition setPath :: "URL \<Rightarrow> string \<Rightarrow> error + URL" where
  "setPath u p =
     (case unescape p encodePath of
        Inl e \<Rightarrow> Inl e
      | Inr path \<Rightarrow>
          Inr (u\<lparr>Path := path, RawPath := (if p = escape path encodePath then [] else p)\<rparr>))"

definition setFragment :: "URL \<Rightarrow> string \<Rightarrow> error + URL" where
  "setFragment u f =
     (case unescape f encodeFragment of
        Inl e \<Rightarrow> Inl e
      | Inr frag \<Rightarrow>
          Inr (u\<lparr>Fragment := frag,
                 RawFragment := (if f = escape frag encodeFragment then [] else f)\<rparr>))"

definition validEncoded :: "string \<Rightarrow> encoding \<Rightarrow> bool" where
  "validEncoded s mode =
     list_all (\<lambda>c. c \<in> set ''!$&'()*+,;=:@[]%'' \<or> \<not> shouldEscape c mode) s"

definition EscapedPath :: "URL \<Rightarrow> string" where
  "EscapedPath u =
     (if RawPath u \<noteq> [] \<and> validEncoded (RawPath u) encodePath
         \<and> unescape (RawPath u) encodePath = Inr (Path u)
      then RawPath u
      else if Path u = ''*'' then ''*''
      else escape (Path u) encodePath)"

definition EscapedFragment :: "URL \<Rightarrow> string" where
  "EscapedFragment u =
     (if RawFragment u \<noteq> [] \<and> validEncoded (RawFragment u) encodeFragment
         \<and> unescape (RawFragment u) encodeFragment = Inr (Fragment u)
      then RawFragment u
      else escape (Fragment u) encodeFragment)"

text \<open>\<^verbatim>\<open>getScheme\<close>: the loop over the bytes of the raw URL, \<open>i\<close> the index reached.\<close>

fun getScheme_from :: "nat \<Rightarrow> string \<Rightarrow> string \<Rightarrow> error + string \<times> string" where
  "getScheme_from i rawURL [] = Inr ([], rawURL)"
| "getScheme_from i rawURL (c # cs) =
     (if isAlpha c then getScheme_from (Suc i) rawURL cs
      else if isDigit c \<or> c \<in> set ''+-.'' then
        (if i = 0 then Inr ([], rawURL) else getScheme_from (Suc i) rawURL cs)
      else if c = CHR '':'' then
        (if i = 0 then Inl (ErrorString ''missing protocol scheme'')
         else Inr (take i rawURL, drop (Suc i) rawURL))
      else Inr ([], rawURL))"

definition getScheme :: "string \<Rightarrow> error + string \<times> string" where
  "getScheme rawURL = getScheme_from 0 rawURL rawURL"

definition validOptionalPort :: "string \<Rightarrow> bool" where
  "validOptionalPort port =
     (case port of [] \<Rightarrow> True | c # ds \<Rightarrow> c = CHR '':'' \<and> list_all isDigit ds)"

definition parseHost :: "string \<Rightarrow> error + string" where
  "parseHost host =
     (if HasPrefix host ''['' then
        (case LastIndexByte host (CHR '']'') of
           None \<Rightarrow> Inl (ErrorString ''missing ']' in host'')
         | Some i \<Rightarrow>
             if \<not> validOptionalPort (drop (Suc i) host)
             then Inl (ErrorString (''invalid port '' @ drop (Suc i) host @ '' after host''))
             else (case Index (take i host) ''%25'' of
                     Some zone \<Rightarrow>
                       (case unescape (take zone host) encodeHost of
                          Inl e \<Rightarrow> Inl e
                        | Inr host1 \<Rightarrow>
                            (case unescape (drop zone (take i host)) encodeZone of
                               Inl e \<Rightarrow> Inl e
                             | Inr host2 \<Rightarrow>
                                 (case unescape (drop i host) encodeHost of
                                    Inl e \<Rightarrow> Inl e
                                  | Inr host3 \<Rightarrow> Inr (host1 @ host2 @ host3))))
                   | None \<Rightarrow> unescape host encodeHost))
      else
        (case LastIndexByte host (CHR '':'') of
           Some i \<Rightarrow>
             if \<not> validOptionalPort (drop i host)
             then Inl (ErrorString (''invalid port '' @ drop i host @ '' after host''))
             else unescape host encodeHost
         | None \<Rightarrow> unescape host encodeHost))"

definition validUserinfo :: "string \<Rightarrow> bool" where
  "validUserinfo s =
     list_all (\<lambda>c. isAlpha c \<or> isDigit c \<or> c \<in> set ''-._:~!$&'()*+,;=%@'') s"

definition parseAuthority :: "string \<Rightarrow> error + Userinfo option \<times> string" where
  "parseAuthority authority =
     (case LastIndexByte authority (CHR ''@'') of
        None \<Rightarrow>
          (case parseHost authority of Inl e \<Rightarrow> Inl e | Inr host \<Rightarrow> Inr (None, host))
      | Some i \<Rightarrow>
          (case parseHost (drop (Suc i) authority) of
             Inl e \<Rightarrow> Inl e
           | Inr host \<Rightarrow>
               let userinfo = take i authority in
               if \<not> validUserinfo userinfo then Inl (ErrorString ''net/url: invalid userinfo'')
               else if CHR '':'' \<notin> set userinfo then
                 (case unescape userinfo encodeUserPassword of
                    Inl e \<Rightarrow> Inl e
                  | Inr name \<Rightarrow>
                      Inr (Some \<lparr>username = name, password = [], passwordSet = False\<rparr>, host))
               else
                 (case Cut userinfo (CHR '':'') of
                    (name0, pass0, _) \<Rightarrow>
                      (case unescape name0 encodeUserPassword of
                         Inl e \<Rightarrow> Inl e
                       | Inr name \<Rightarrow>
                           (case unescape pass0 encodeUserPassword of
                              Inl e \<Rightarrow> Inl e
                            | Inr pass \<Rightarrow>
                                Inr (Some \<lparr>username = name, password = pass,
                                           passwordSet = True\<rparr>, host))))))"

text \<open>
  \<^verbatim>\<open>parse\<close> with \<^verbatim>\<open>viaRequest = false\<close>, the only way this package reaches it, and
  \<^verbatim>\<open>url.Parse\<close>, which cuts the fragment off first. The text of the two
  \<^verbatim>\<open>invalid port\<close> messages above leaves out the quoting of \<^verbatim>\<open>%q\<close>.
\<close>

definition stringContainsCTLByte :: "string \<Rightarrow> bool" where
  "stringContainsCTLByte s = (\<exists>c \<in> set s. byte c < 0x20 \<or> byte c = 0x7f)"

definition parse_authority_and_path :: "URL \<Rightarrow> string \<Rightarrow> error + URL" where
  "parse_authority_and_path u rest =
     (if (Scheme u \<noteq> [] \<or> \<not> HasPrefix rest ''///'') \<and> HasPrefix rest ''//'' then
        (let a = drop 2 rest;
             authority = (case IndexByte a (CHR ''/'') of None \<Rightarrow> a | Some i \<Rightarrow> take i a);
             rest' = (case IndexByte a (CHR ''/'') of None \<Rightarrow> [] | Some i \<Rightarrow> drop i a)
         in case parseAuthority authority of
              Inl e \<Rightarrow> Inl e
            | Inr (user, host) \<Rightarrow> setPath (u\<lparr>User := user, Host := host\<rparr>) rest')
      else if Scheme u \<noteq> [] \<and> HasPrefix rest ''/'' then setPath (u\<lparr>OmitHost := True\<rparr>) rest
      else setPath u rest)"

definition parse :: "string \<Rightarrow> error + URL" where
  "parse rawURL =
     (if stringContainsCTLByte rawURL
      then Inl (ErrorString ''net/url: invalid control character in URL'')
      else if rawURL = ''*'' then Inr (emptyURL\<lparr>Path := ''*''\<rparr>)
      else
        (case getScheme rawURL of
           Inl e \<Rightarrow> Inl e
         | Inr (scheme, rest0) \<Rightarrow>
             let u0 = emptyURL\<lparr>Scheme := map toLower scheme\<rparr>;
                 force = (HasSuffix rest0 ''?'' \<and> Count rest0 (CHR ''?'') = 1);
                 rest = (if force then butlast rest0 else fst (Cut rest0 (CHR ''?'')));
                 u = (if force then u0\<lparr>ForceQuery := True\<rparr>
                      else u0\<lparr>RawQuery := fst (snd (Cut rest0 (CHR ''?'')))\<rparr>)
             in if \<not> HasPrefix rest ''/'' \<and> Scheme u \<noteq> [] then Inr (u\<lparr>Opaque := rest\<rparr>)
                else if \<not> HasPrefix rest ''/'' \<and> CHR '':'' \<in> set (fst (Cut rest (CHR ''/'')))
                  then Inl (ErrorString ''first path segment in URL cannot contain colon'')
                else parse_authority_and_path u rest))"

definition url_Parse :: "string \<Rightarrow> error + URL" where
  "url_Parse rawURL =
     (case Cut rawURL (CHR ''#'') of
        (u, frag, _) \<Rightarrow>
          (case parse u of
             Inl e \<Rightarrow> Inl (URLError ''parse'' u e)
           | Inr url \<Rightarrow>
               if frag = [] then Inr url
               else (case setFragment url frag of
                       Inl e \<Rightarrow> Inl (URLError ''parse'' rawURL e)
                     | Inr url' \<Rightarrow> Inr url')))"

definition IsAbs :: "URL \<Rightarrow> bool" where
  "IsAbs u = (Scheme u \<noteq> [])"

text \<open>\<^verbatim>\<open>Userinfo.String\<close> and \<^verbatim>\<open>URL.String\<close>.\<close>

definition Userinfo_String :: "Userinfo \<Rightarrow> string" where
  "Userinfo_String ui =
     escape (username ui) encodeUserPassword @
     (if passwordSet ui then '':'' @ escape (password ui) encodeUserPassword else [])"

definition URL_String :: "URL \<Rightarrow> string" where
  "URL_String u =
     (let buf0 = (if Scheme u \<noteq> [] then Scheme u @ '':'' else []);
          buf1 =
            (if Opaque u \<noteq> [] then buf0 @ Opaque u
             else
               (let auth =
                      (if Scheme u \<noteq> [] \<or> Host u \<noteq> [] \<or> User u \<noteq> None then
                         (if OmitHost u \<and> Host u = [] \<and> User u = None then []
                          else
                            (if Host u \<noteq> [] \<or> Path u \<noteq> [] \<or> User u \<noteq> None then ''//'' else []) @
                            (case User u of None \<Rightarrow> [] | Some ui \<Rightarrow> Userinfo_String ui @ ''@'') @
                            (if Host u \<noteq> [] then escape (Host u) encodeHost else []))
                       else []);
                    path = EscapedPath u;
                    slash = (if path \<noteq> [] \<and> hd path \<noteq> CHR ''/'' \<and> Host u \<noteq> [] then ''/'' else []);
                    buf = buf0 @ auth @ slash;
                    dot = (if buf = [] \<and> CHR '':'' \<in> set (fst (Cut path (CHR ''/''))) then ''./'' else [])
                in buf @ dot @ path));
          buf2 = (if ForceQuery u \<or> RawQuery u \<noteq> [] then buf1 @ ''?'' @ RawQuery u else buf1)
      in if Fragment u \<noteq> [] then buf2 @ ''#'' @ EscapedFragment u else buf2)"

text \<open>
  \<^verbatim>\<open>resolvePath\<close>: the loop cuts the joined path at each \<^verbatim>\<open>/\<close> and keeps the
  output so far and the flag \<^verbatim>\<open>first\<close>.
\<close>

fun splitSlash :: "string \<Rightarrow> string \<Rightarrow> string list" where
  "splitSlash acc [] = [rev acc]"
| "splitSlash acc (c # cs) =
     (if c = CHR ''/'' then rev acc # splitSlash [] cs else splitSlash (c # acc) cs)"

definition resolve_step :: "string \<times> bool \<Rightarrow> string \<Rightarrow> string \<times> bool" where
  "resolve_step st elem =
     (case st of (dst, first) \<Rightarrow>
        if elem = ''.'' then (dst, False)
        else if elem = ''..'' then
          (case LastIndexByte (drop 1 dst) (CHR ''/'') of
             None \<Rightarrow> (''/'', True)
           | Some index \<Rightarrow> (''/'' @ take index (drop 1 dst), first))
        else ((if first then dst else dst @ ''/'') @ elem, False))"

definition resolvePath :: "string \<Rightarrow> string \<Rightarrow> string" where
  "resolvePath base ref =
     (let full = (if ref = [] then base
                  else if hd ref \<noteq> CHR ''/'' then
                    (case LastIndexByte base (CHR ''/'') of
                       None \<Rightarrow> ref
                     | Some i \<Rightarrow> take (Suc i) base @ ref)
                  else ref)
      in if full = [] then []
         else
           (let elems = splitSlash [] full;
                dst = fst (foldl resolve_step (''/'', True) elems);
                r = (if last elems = ''.'' \<or> last elems = ''..'' then dst @ ''/'' else dst)
            in if length r > 1 \<and> r ! 1 = CHR ''/'' then drop 1 r else r))"

text \<open>\<^verbatim>\<open>URL.ResolveReference\<close>; the library ignores the error of \<^verbatim>\<open>setPath\<close> here,
  which then leaves the path of the copy as it was.\<close>

definition setPath_ignore :: "URL \<Rightarrow> string \<Rightarrow> URL" where
  "setPath_ignore u p = (case setPath u p of Inl e \<Rightarrow> u | Inr u' \<Rightarrow> u')"

definition ResolveReference :: "URL \<Rightarrow> URL \<Rightarrow> URL" where
  "ResolveReference u ref =
     (let url = (if Scheme ref = [] then ref\<lparr>Scheme := Scheme u\<rparr> else ref) in
      if Scheme ref \<noteq> [] \<or> Host ref \<noteq> [] \<or> User ref \<noteq> None
        then setPath_ignore url (resolvePath (EscapedPath ref) [])
      else if Opaque ref \<noteq> [] then url\<lparr>User := None, Host := [], Path := []\<rparr>
      else
        (let url1 = (if Path ref = [] \<and> \<not> ForceQuery ref \<and> RawQuery ref = []
                     then (let q = url\<lparr>RawQuery := RawQuery u\<rparr>
                           in if Fragment ref = []
                              then q\<lparr>Fragment := Fragment u, RawFragment := RawFragment u\<rparr>
                              else q)
                     else url)
         in if Path ref = [] \<and> Opaque u \<noteq> []
            then url1\<lparr>Opaque := Opaque u, User := None, Host := [], Path := []\<rparr>
            else setPath_ignore (url1\<lparr>Host := Host u, User := User u\<rparr>)
                   (resolvePath (EscapedPath u) (EscapedPath ref))))"

text \<open>
  \<^verbatim>\<open>url.Values\<close> is a map from keys to lists of values: a list of pairs with distinct
  keys. \<^verbatim>\<open>Values.Set\<close> replaces the values of a key; \<^verbatim>\<open>Values.Encode\<close> writes the
  pairs sorted by key (bytewise string order), joined by \<^verbatim>\<open>&\<close>.
\<close>

type_synonym Values = "(string \<times> string list) list"

definition Values_Set :: "Values \<Rightarrow> string \<Rightarrow> string \<Rightarrow> Values" where
  "Values_Set v k x =
     (if k \<in> fst ` set v then map (\<lambda>(k', xs). if k' = k then (k', [x]) else (k', xs)) v
      else v @ [(k, [x])])"

fun string_less :: "string \<Rightarrow> string \<Rightarrow> bool" where
  "string_less s [] = False"
| "string_less [] (y # ys) = True"
| "string_less (x # xs) (y # ys) = (byte x < byte y \<or> (x = y \<and> string_less xs ys))"

fun insert_by_key :: "string \<times> string list \<Rightarrow> Values \<Rightarrow> Values" where
  "insert_by_key p [] = [p]"
| "insert_by_key p (q # qs) =
     (if string_less (fst p) (fst q) then p # q # qs else q # insert_by_key p qs)"

definition sort_by_key :: "Values \<Rightarrow> Values" where
  "sort_by_key v = foldr insert_by_key v []"

fun join_amp :: "string list \<Rightarrow> string" where
  "join_amp [] = []"
| "join_amp [x] = x"
| "join_amp (x # y # ys) = x @ ''&'' @ join_amp (y # ys)"

definition Values_Encode :: "Values \<Rightarrow> string" where
  "Values_Encode v =
     join_amp (concat (map (\<lambda>(k, vs). map (\<lambda>x. QueryEscape k @ ''='' @ QueryEscape x) vs)
                            (sort_by_key v)))"

section \<open>A model of \<^verbatim>\<open>json.Unmarshal\<close> into an \<^verbatim>\<open>*APIError\<close>\<close>

text \<open>
  \<^verbatim>\<open>json.Unmarshal\<close> first checks the whole input with the scanner of
  \<^verbatim>\<open>encoding/json\<close> (\<^verbatim>\<open>checkValid\<close>), a pushdown automaton that reads one byte
  at a time; only a valid input is decoded. The automaton is modelled state by state,
  with the library's names. The stack \<open>parseState\<close> has its top at the head.
\<close>

datatype parse_state = parseObjectKey | parseObjectValue | parseArrayValue

datatype scan_step =
    stateBeginValueOrEmpty | stateBeginValue | stateBeginStringOrEmpty | stateBeginString
  | stateEndValue | stateEndTop
  | stateInString | stateInStringEsc
  | stateInStringEscU | stateInStringEscU1 | stateInStringEscU12 | stateInStringEscU123
  | stateNeg | state1 | state0 | stateDot | stateDot0 | stateE | stateESign | stateE0
  | stateT | stateTr | stateTru | stateF | stateFa | stateFal | stateFals
  | stateN | stateNu | stateNul

record scanner =
  step :: scan_step
  parseState :: "parse_state list"
  endTop :: bool

definition maxNestingDepth :: nat where
  "maxNestingDepth = 10000"

definition json_isSpace :: "char \<Rightarrow> bool" where
  "json_isSpace c = (byte c \<in> {32, 9, 13, 10})"

definition pushParseState :: "scanner \<Rightarrow> parse_state \<Rightarrow> scan_step \<Rightarrow> scanner option" where
  "pushParseState s newParseState successState =
     (if length (newParseState # parseState s) \<le> maxNestingDepth
      then Some (s\<lparr>parseState := newParseState # parseState s, step := successState\<rparr>)
      else None)"

definition popParseState :: "scanner \<Rightarrow> scanner" where
  "popParseState s =
     (if tl (parseState s) = []
      then s\<lparr>parseState := [], step := stateEndTop, endTop := True\<rparr>
      else s\<lparr>parseState := tl (parseState s), step := stateEndValue\<rparr>)"

definition stateEndTop_fn :: "scanner \<Rightarrow> char \<Rightarrow> scanner option" where
  "stateEndTop_fn s c = (if json_isSpace c then Some s else None)"

definition stateEndValue_fn :: "scanner \<Rightarrow> char \<Rightarrow> scanner option" where
  "stateEndValue_fn s c =
     (case parseState s of
        [] \<Rightarrow> stateEndTop_fn (s\<lparr>step := stateEndTop, endTop := True\<rparr>) c
      | ps # rest \<Rightarrow>
          if json_isSpace c then Some (s\<lparr>step := stateEndValue\<rparr>)
          else (case ps of
                  parseObjectKey \<Rightarrow>
                    if c = CHR '':''
                    then Some (s\<lparr>parseState := parseObjectValue # rest, step := stateBeginValue\<rparr>)
                    else None
                | parseObjectValue \<Rightarrow>
                    if c = CHR '',''
                    then Some (s\<lparr>parseState := parseObjectKey # rest, step := stateBeginString\<rparr>)
                    else if c = CHR ''}'' then Some (popParseState s)
                    else None
                | parseArrayValue \<Rightarrow>
                    if c = CHR '','' then Some (s\<lparr>step := stateBeginValue\<rparr>)
                    else if c = CHR '']'' then Some (popParseState s)
                    else None))"

definition stateBeginString_fn :: "scanner \<Rightarrow> char \<Rightarrow> scanner option" where
  "stateBeginString_fn s c =
     (if json_isSpace c then Some s
      else if c = CHR 0x22 then Some (s\<lparr>step := stateInString\<rparr>)
      else None)"

definition stateBeginStringOrEmpty_fn :: "scanner \<Rightarrow> char \<Rightarrow> scanner option" where
  "stateBeginStringOrEmpty_fn s c =
     (if json_isSpace c then Some s
      else if c = CHR ''}''
        then stateEndValue_fn (s\<lparr>parseState := parseObjectValue # tl (parseState s)\<rparr>) c
      else stateBeginString_fn s c)"

definition stateBeginValue_fn :: "scanner \<Rightarrow> char \<Rightarrow> scanner option" where
  "stateBeginValue_fn s c =
     (if json_isSpace c then Some s
      else if c = CHR ''{'' then pushParseState s parseObjectKey stateBeginStringOrEmpty
      else if c = CHR ''['' then pushParseState s parseArrayValue stateBeginValueOrEmpty
      else if c = CHR 0x22 then Some (s\<lparr>step := stateInString\<rparr>)
      else if c = CHR ''-'' then Some (s\<lparr>step := stateNeg\<rparr>)
      else if c = CHR ''0'' then Some (s\<lparr>step := state0\<rparr>)
      else if c = CHR ''t'' then Some (s\<lparr>step := stateT\<rparr>)
      else if c = CHR ''f'' then Some (s\<lparr>step := stateF\<rparr>)
      else if c = CHR ''n'' then Some (s\<lparr>step := stateN\<rparr>)
      else if 49 \<le> byte c \<and> byte c \<le> 57 then Some (s\<lparr>step := state1\<rparr>)
      else None)"

definition stateBeginValueOrEmpty_fn :: "scanner \<Rightarrow> char \<Rightarrow> scanner option" where
  "stateBeginValueOrEmpty_fn s c =
     (if json_isSpace c then Some s
      else if c = CHR '']'' then stateEndValue_fn s c
      else stateBeginValue_fn s c)"

definition state0_fn :: "scanner \<Rightarrow> char \<Rightarrow> scanner option" where
  "state0_fn s c =
     (if c = CHR ''.'' then Some (s\<lparr>step := stateDot\<rparr>)
      else if c = CHR ''e'' \<or> c = CHR ''E'' then Some (s\<lparr>step := stateE\<rparr>)
      else stateEndValue_fn s c)"

definition stateESign_fn :: "scanner \<Rightarrow> char \<Rightarrow> scanner option" where
  "stateESign_fn s c = (if isDigit c then Some (s\<lparr>step := stateE0\<rparr>) else None)"

definition expect :: "scanner \<Rightarrow> char \<Rightarrow> char \<Rightarrow> scan_step \<Rightarrow> scanner option" where
  "expect s c want next = (if c = want then Some (s\<lparr>step := next\<rparr>) else None)"

text \<open>One step of the scanner: the step function of the current state, applied to a byte.
  \<open>None\<close> is \<^verbatim>\<open>scanError\<close>.\<close>

definition scan_byte :: "scanner \<Rightarrow> char \<Rightarrow> scanner option" where
  "scan_byte s c =
     (case step s of
        stateBeginValueOrEmpty \<Rightarrow> stateBeginValueOrEmpty_fn s c
      | stateBeginValue \<Rightarrow> stateBeginValue_fn s c
      | stateBeginStringOrEmpty \<Rightarrow> stateBeginStringOrEmpty_fn s c
      | stateBeginString \<Rightarrow> stateBeginString_fn s c
      | stateEndValue \<Rightarrow> stateEndValue_fn s c
      | stateEndTop \<Rightarrow> stateEndTop_fn s c
      | stateInString \<Rightarrow>
          if c = CHR 0x22 then Some (s\<lparr>step := stateEndValue\<rparr>)
          else if c = CHR 0x5C then Some (s\<lparr>step := stateInStringEsc\<rparr>)
          else if byte c < 0x20 then None
          else Some s
      | stateInStringEsc \<Rightarrow>
          if c \<in> set ''bfnrt/'' \<or> c = CHR 0x5C \<or> c = CHR 0x22 then Some (s\<lparr>step := stateInString\<rparr>)
          else if c = CHR ''u'' then Some (s\<lparr>step := stateInStringEscU\<rparr>)
          else None
      | stateInStringEscU \<Rightarrow> if ishex c then Some (s\<lparr>step := stateInStringEscU1\<rparr>) else None
      | stateInStringEscU1 \<Rightarrow> if ishex c then Some (s\<lparr>step := stateInStringEscU12\<rparr>) else None
      | stateInStringEscU12 \<Rightarrow> if ishex c then Some (s\<lparr>step := stateInStringEscU123\<rparr>) else None
      | stateInStringEscU123 \<Rightarrow> if ishex c then Some (s\<lparr>step := stateInString\<rparr>) else None
      | stateNeg \<Rightarrow>
          if c = CHR ''0'' then Some (s\<lparr>step := state0\<rparr>)
          else if 49 \<le> byte c \<and> byte c \<le> 57 then Some (s\<lparr>step := state1\<rparr>)
          else None
      | state1 \<Rightarrow> if isDigit c then Some (s\<lparr>step := state1\<rparr>) else state0_fn s c
      | state0 \<Rightarrow> state0_fn s c
      | stateDot \<Rightarrow> if isDigit c then Some (s\<lparr>step := stateDot0\<rparr>) else None
      | stateDot0 \<Rightarrow>
          if isDigit c then Some s
          else if c = CHR ''e'' \<or> c = CHR ''E'' then Some (s\<lparr>step := stateE\<rparr>)
          else stateEndValue_fn s c
      | stateE \<Rightarrow>
          if c = CHR ''+'' \<or> c = CHR ''-'' then Some (s\<lparr>step := stateESign\<rparr>)
          else stateESign_fn s c
      | stateESign \<Rightarrow> stateESign_fn s c
      | stateE0 \<Rightarrow> if isDigit c then Some s else stateEndValue_fn s c
      | stateT \<Rightarrow> expect s c (CHR ''r'') stateTr
      | stateTr \<Rightarrow> expect s c (CHR ''u'') stateTru
      | stateTru \<Rightarrow> expect s c (CHR ''e'') stateEndValue
      | stateF \<Rightarrow> expect s c (CHR ''a'') stateFa
      | stateFa \<Rightarrow> expect s c (CHR ''l'') stateFal
      | stateFal \<Rightarrow> expect s c (CHR ''s'') stateFals
      | stateFals \<Rightarrow> expect s c (CHR ''e'') stateEndValue
      | stateN \<Rightarrow> expect s c (CHR ''u'') stateNu
      | stateNu \<Rightarrow> expect s c (CHR ''l'') stateNul
      | stateNul \<Rightarrow> expect s c (CHR ''l'') stateEndValue)"

fun scan_bytes :: "scanner \<Rightarrow> string \<Rightarrow> scanner option" where
  "scan_bytes s [] = Some s"
| "scan_bytes s (c # cs) = (case scan_byte s c of None \<Rightarrow> None | Some s' \<Rightarrow> scan_bytes s' cs)"

definition scanner_reset :: scanner where
  "scanner_reset = \<lparr>step = stateBeginValue, parseState = [], endTop = False\<rparr>"

text \<open>\<^verbatim>\<open>scanner.eof\<close>: at the end of the input the scanner is fed one space; the input
  is complete when the top-level value has ended.\<close>

definition scanner_eof :: "scanner \<Rightarrow> bool" where
  "scanner_eof s =
     (endTop s \<or> (case scan_byte s (CHR '' '') of None \<Rightarrow> False | Some s' \<Rightarrow> endTop s'))"

definition checkValid :: "string \<Rightarrow> bool" where
  "checkValid data =
     (case scan_bytes scanner_reset data of None \<Rightarrow> False | Some s \<Rightarrow> scanner_eof s)"

subsection \<open>String literals\<close>

text \<open>
  \<^verbatim>\<open>unquoteBytes\<close>: the text of a string literal without its quotes, escapes
  replaced, and every byte that is not part of a well-formed UTF-8 sequence replaced by
  the encoding of U+FFFD. \<open>validRuneLen\<close> is the length of the well-formed sequence at
  the head of a string (0 when there is none), as \<^verbatim>\<open>utf8.DecodeRune\<close> accepts it.
\<close>

definition cont :: "char \<Rightarrow> bool" where
  "cont c = (0x80 \<le> byte c \<and> byte c \<le> 0xBF)"

fun validRuneLen :: "string \<Rightarrow> nat" where
  "validRuneLen [] = 0"
| "validRuneLen (a # s) =
     (if byte a < 0x80 then 1
      else if 0xC2 \<le> byte a \<and> byte a \<le> 0xDF then
        (case s of b # _ \<Rightarrow> if cont b then 2 else 0 | _ \<Rightarrow> 0)
      else if 0xE0 \<le> byte a \<and> byte a \<le> 0xEF then
        (case s of
           b # c # _ \<Rightarrow>
             if (if byte a = 0xE0 then 0xA0 \<le> byte b \<and> byte b \<le> 0xBF
                 else if byte a = 0xED then 0x80 \<le> byte b \<and> byte b \<le> 0x9F
                 else cont b) \<and> cont c
             then 3 else 0
         | _ \<Rightarrow> 0)
      else if 0xF0 \<le> byte a \<and> byte a \<le> 0xF4 then
        (case s of
           b # c # d # _ \<Rightarrow>
             if (if byte a = 0xF0 then 0x90 \<le> byte b \<and> byte b \<le> 0xBF
                 else if byte a = 0xF4 then 0x80 \<le> byte b \<and> byte b \<le> 0x8F
                 else cont b) \<and> cont c \<and> cont d
             then 4 else 0
         | _ \<Rightarrow> 0)
      else 0)"

definition RuneError :: string where
  "RuneError = [char_of (0xEF::nat), char_of (0xBF::nat), char_of (0xBD::nat)]"

text \<open>\<^verbatim>\<open>utf8.EncodeRune\<close> of a code point.\<close>

definition EncodeRune :: "nat \<Rightarrow> string" where
  "EncodeRune r =
     (if r < 0x80 then [char_of r]
      else if r < 0x800 then [char_of (0xC0 + r div 64), char_of (0x80 + r mod 64)]
      else if 0xD800 \<le> r \<and> r \<le> 0xDFFF then RuneError
      else if r < 0x10000
        then [char_of (0xE0 + r div 4096), char_of (0x80 + (r div 64) mod 64),
              char_of (0x80 + r mod 64)]
      else if r \<le> 0x10FFFF
        then [char_of (0xF0 + r div 262144), char_of (0x80 + (r div 4096) mod 64),
              char_of (0x80 + (r div 64) mod 64), char_of (0x80 + r mod 64)]
      else RuneError)"

text \<open>\<^verbatim>\<open>getu4\<close>: the code unit of a \<^verbatim>\<open>\uXXXX\<close> escape at the head, if there is one.\<close>

definition getu4 :: "string \<Rightarrow> nat option" where
  "getu4 s =
     (case s of
        e # u # a # b # c # d # _ \<Rightarrow>
          if e = CHR 0x5C \<and> u = CHR ''u'' \<and> ishex a \<and> ishex b \<and> ishex c \<and> ishex d
          then Some (((unhex a * 16 + unhex b) * 16 + unhex c) * 16 + unhex d)
          else None
      | _ \<Rightarrow> None)"

text \<open>
  The loop of \<^verbatim>\<open>unquoteBytes\<close> over the text between the quotes. \<open>skip\<close> counts the
  bytes of an escape still to pass over, \<open>copy\<close> the bytes of a well-formed rune still
  to copy.
\<close>

fun unquote_loop :: "nat \<Rightarrow> nat \<Rightarrow> string \<Rightarrow> string option" where
  "unquote_loop skip copy [] = Some []"
| "unquote_loop (Suc j) copy (c # cs) = unquote_loop j copy cs"
| "unquote_loop 0 (Suc k) (c # cs) = map_option ((#) c) (unquote_loop 0 k cs)"
| "unquote_loop 0 0 (c # cs) =
     (if c = CHR 0x5C then
        (case cs of
           [] \<Rightarrow> None
         | e # rest \<Rightarrow>
             if e = CHR 0x22 \<or> e = CHR 0x5C \<or> e = CHR ''/'' \<or> e = CHR 0x27
               then map_option ((#) e) (unquote_loop 0 0 rest)
             else if e = CHR ''b'' then map_option ((#) (char_of (8::nat))) (unquote_loop 0 0 rest)
             else if e = CHR ''f'' then map_option ((#) (char_of (12::nat))) (unquote_loop 0 0 rest)
             else if e = CHR ''n'' then map_option ((#) (char_of (10::nat))) (unquote_loop 0 0 rest)
             else if e = CHR ''r'' then map_option ((#) (char_of (13::nat))) (unquote_loop 0 0 rest)
             else if e = CHR ''t'' then map_option ((#) (char_of (9::nat))) (unquote_loop 0 0 rest)
             else if e = CHR ''u'' then
               (case getu4 (c # cs) of
                  None \<Rightarrow> None
                | Some rr \<Rightarrow>
                    if 0xD800 \<le> rr \<and> rr \<le> 0xDFFF then
                      (case getu4 (drop 5 cs) of
                         None \<Rightarrow> map_option ((@) RuneError) (unquote_loop 5 0 cs)
                       | Some rr1 \<Rightarrow>
                           if rr \<le> 0xDBFF \<and> 0xDC00 \<le> rr1 \<and> rr1 \<le> 0xDFFF
                           then map_option
                                  ((@) (EncodeRune ((rr - 0xD800) * 1024 + (rr1 - 0xDC00) + 0x10000)))
                                  (unquote_loop 11 0 cs)
                           else map_option ((@) RuneError) (unquote_loop 5 0 cs))
                    else map_option ((@) (EncodeRune rr)) (unquote_loop 5 0 cs))
             else None)
      else if c = CHR 0x22 \<or> byte c < 0x20 then None
      else if byte c < 0x80 then map_option ((#) c) (unquote_loop 0 0 cs)
      else if validRuneLen (c # cs) = 0 then map_option ((@) RuneError) (unquote_loop 0 0 cs)
      else map_option ((#) c) (unquote_loop 0 (validRuneLen (c # cs) - 1) cs))"

definition unquoteBytes :: "string \<Rightarrow> string option" where
  "unquoteBytes s =
     (if length s < 2 \<or> hd s \<noteq> CHR 0x22 \<or> last s \<noteq> CHR 0x22 then None
      else unquote_loop 0 0 (butlast (tl s)))"

subsection \<open>The members of an object\<close>

text \<open>
  The decoder walks a valid object member by member: the key literal, the colon, the
  text of the value. On a valid input the commas and colons that separate the members
  are those outside every string and every nested array or object, so the members are
  cut there. \<open>cutTop sep d inStr esc acc s\<close> cuts \<open>s\<close> at the first \<open>sep\<close> at nesting
  depth \<open>d = 0\<close> outside a string.
\<close>

fun cutTop :: "char \<Rightarrow> nat \<Rightarrow> bool \<Rightarrow> bool \<Rightarrow> string \<Rightarrow> string \<Rightarrow> string \<times> string option" where
  "cutTop sep d inStr esc acc [] = (rev acc, None)"
| "cutTop sep d inStr esc acc (c # cs) =
     (if inStr then
        (if esc then cutTop sep d True False (c # acc) cs
         else if c = CHR 0x5C then cutTop sep d True True (c # acc) cs
         else if c = CHR 0x22 then cutTop sep d False False (c # acc) cs
         else cutTop sep d True False (c # acc) cs)
      else if c = CHR 0x22 then cutTop sep d True False (c # acc) cs
      else if c = CHR ''{'' \<or> c = CHR ''['' then cutTop sep (Suc d) False False (c # acc) cs
      else if c = CHR ''}'' \<or> c = CHR '']'' then cutTop sep (d - 1) False False (c # acc) cs
      else if c = sep \<and> d = 0 then (rev acc, Some cs)
      else cutTop sep d False False (c # acc) cs)"

function splitTop :: "char \<Rightarrow> string \<Rightarrow> string list" where
  "splitTop sep s =
     (case cutTop sep 0 False False [] s of
        (piece, None) \<Rightarrow> [piece]
      | (piece, Some rest) \<Rightarrow>
          if length rest < length s then piece # splitTop sep rest else [piece])"
  by pat_completeness auto
termination
  by (relation "measure (\<lambda>(sep, s). length s)") auto

definition jtrim :: "string \<Rightarrow> string" where
  "jtrim s = rev (dropWhile json_isSpace (rev (dropWhile json_isSpace s)))"

definition object_members :: "string \<Rightarrow> (string \<times> string) list" where
  "object_members t =
     (let inner = butlast (tl t) in
      if list_all json_isSpace inner then []
      else map (\<lambda>m. case cutTop (CHR '':'') 0 False False [] m of
                       (k, v) \<Rightarrow> (jtrim k, jtrim (case v of None \<Rightarrow> [] | Some x \<Rightarrow> x)))
               (splitTop (CHR '','') inner))"

subsection \<open>Decoding into the fields of \<^verbatim>\<open>APIError\<close>\<close>

text \<open>
  The struct tags of \<^verbatim>\<open>APIError\<close> give the decoder three fields: \<^verbatim>\<open>message\<close>,
  \<^verbatim>\<open>code\<close> and \<^verbatim>\<open>raw\<close>; \<^verbatim>\<open>StatusCode\<close> is tagged \<^verbatim>\<open>json:"-"\<close> and is never
  written. A key selects a field when it equals the field's name under
  \<^verbatim>\<open>foldName\<close>: ASCII letters without case, and the two runes that fold to an ASCII
  letter, U+017F to \<^verbatim>\<open>S\<close> and U+212A to \<^verbatim>\<open>K\<close>. A key with any other rune outside
  ASCII selects no field (\<open>None\<close>).
\<close>

datatype field = MessageField | CodeField | RawField

fun foldName :: "string \<Rightarrow> string option" where
  "foldName [] = Some []"
| "foldName (c # cs) =
     (if byte c < 0x80 then map_option ((#) (toUpper c)) (foldName cs)
      else if byte c = 0xC5 then
        (case cs of
           b # rest \<Rightarrow> if byte b = 0xBF then map_option ((#) CHR ''S'') (foldName rest) else None
         | _ \<Rightarrow> None)
      else if byte c = 0xE2 then
        (case cs of
           a # b # rest \<Rightarrow>
             if byte a = 0x84 \<and> byte b = 0xAA then map_option ((#) CHR ''K'') (foldName rest)
             else None
         | _ \<Rightarrow> None)
      else None)"

definition lookupField :: "string \<Rightarrow> field option" where
  "lookupField key =
     (if foldName key = Some ''MESSAGE'' then Some MessageField
      else if foldName key = Some ''CODE'' then Some CodeField
      else if foldName key = Some ''RAW'' then Some RawField
      else None)"

definition phasePanicMsg :: string where
  "phasePanicMsg = ''JSON decoder out of sync - data changing underfoot?''"

text \<open>The decoder keeps the first error (\<^verbatim>\<open>saveError\<close>) and goes on.\<close>

definition saveError :: "error option \<Rightarrow> error \<Rightarrow> error option" where
  "saveError saved err = (case saved of None \<Rightarrow> Some err | Some e \<Rightarrow> Some e)"

text \<open>
  A value stored into a string field: a string literal sets the field, \<^verbatim>\<open>null\<close>
  leaves it, every other value is an \<^verbatim>\<open>UnmarshalTypeError\<close>. \<open>Inl\<close> carries the
  name of the JSON type that does not fit.
\<close>

definition string_value :: "string \<Rightarrow> string + string option" where
  "string_value vt =
     (case vt of
        [] \<Rightarrow> Inl ''number''
      | c # _ \<Rightarrow>
          if c = CHR 0x22 then
            (case unquoteBytes vt of None \<Rightarrow> Inl ''string'' | Some s \<Rightarrow> Inr (Some s))
          else if c = CHR ''n'' then Inr None
          else if c = CHR ''t'' \<or> c = CHR ''f'' then Inl ''bool''
          else if c = CHR ''{'' then Inl ''object''
          else if c = CHR ''['' then Inl ''array''
          else Inl ''number'')"

definition decode_member :: "APIError \<times> error option \<Rightarrow> string \<times> string \<Rightarrow> APIError \<times> error option" where
  "decode_member st m =
     (case st of (v, saved) \<Rightarrow>
      case m of (keyLiteral, vt) \<Rightarrow>
        (case unquoteBytes keyLiteral of
           None \<Rightarrow> (v, saveError saved (Panic phasePanicMsg))
         | Some key \<Rightarrow>
             (case lookupField key of
                None \<Rightarrow> (v, saved)
              | Some RawField \<Rightarrow> (v\<lparr>Raw := vt\<rparr>, saved)
              | Some MessageField \<Rightarrow>
                  (case string_value vt of
                     Inl ty \<Rightarrow> (v, saveError saved (UnmarshalTypeError ty ''message''))
                   | Inr None \<Rightarrow> (v, saved)
                   | Inr (Some s) \<Rightarrow> (v\<lparr>Message := s\<rparr>, saved))
              | Some CodeField \<Rightarrow>
                  (case string_value vt of
                     Inl ty \<Rightarrow> (v, saveError saved (UnmarshalTypeError ty ''code''))
                   | Inr None \<Rightarrow> (v, saved)
                   | Inr (Some s) \<Rightarrow> (v\<lparr>Code := s\<rparr>, saved)))))"

text \<open>
  \<^verbatim>\<open>json.Unmarshal(data, apiErr)\<close>: the struct after the call and the error returned.
  An input that is not valid JSON leaves the struct as it was; a valid input that is
  not an object (or \<^verbatim>\<open>null\<close>) is an \<^verbatim>\<open>UnmarshalTypeError\<close>; an object is decoded
  member by member, later members overwriting earlier ones.
\<close>

definition json_Unmarshal :: "string \<Rightarrow> APIError \<Rightarrow> APIError \<times> error option" where
  "json_Unmarshal data v =
     (if \<not> checkValid data then (v, Some SyntaxError)
      else
        (case jtrim data of
           [] \<Rightarrow> (v, Some SyntaxError)
         | c # cs \<Rightarrow>
             if c = CHR ''{'' then foldl decode_member (v, None) (object_members (c # cs))
             else if c = CHR ''n'' then (v, None)
             else if c = CHR ''['' then (v, Some (UnmarshalTypeError ''array'' []))
             else if c = CHR 0x22 then (v, Some (UnmarshalTypeError ''string'' []))
             else if c = CHR ''t'' \<or> c = CHR ''f'' then (v, Some (UnmarshalTypeError ''bool'' []))
             else (v, Some (UnmarshalTypeError ''number'' []))))"

section \<open>The client (client.go)\<close>

definition defaultBaseURL :: string where
  "defaultBaseURL = ''https://api.ns.enzonix.com''"

text \<open>A \<^verbatim>\<open>time.Duration\<close> counts nanoseconds: \<^verbatim>\<open>10 * time.Second\<close>.\<close>

definition defaultTimeout :: int where
  "defaultTimeout = 10 * 1000000000"

definition defaultUserAgent :: string where
  "defaultUserAgent = ''enzonix-dns-sdk-go/0.1.0''"

text \<open>An \<^verbatim>\<open>*http.Client\<close> is a handle with its timeout; \<open>None\<close> is the nil pointer.\<close>

record http_Client =
  Timeout :: int

record Client =
  baseURL :: "URL option"
  apiKey :: string
  httpClient :: "http_Client option"
  userAgent :: string

text \<open>
  \<^verbatim>\<open>type Option func(*Client) error\<close>: an option receives the client, may change it,
  and returns an error or nil. A nil option is \<open>None\<close> in the list given to
  \<open>NewClient\<close>.
\<close>

type_synonym Option = "Client \<Rightarrow> Client \<times> error option"

definition WithBaseURL :: "string \<Rightarrow> Option" where
  "WithBaseURL rawURL = (\<lambda>c.
     if TrimSpace rawURL = [] then (c, Some (ErrorString ''enzonix: base url must not be empty''))
     else (case url_Parse rawURL of
             Inl err \<Rightarrow> (c, Some (WrapError ''enzonix: parse base url: '' err))
           | Inr parsed \<Rightarrow>
               if \<not> IsAbs parsed
               then (c, Some (ErrorString ''enzonix: base url must be absolute''))
               else (c\<lparr>baseURL := Some parsed\<rparr>, None)))"

definition WithHTTPClient :: "http_Client option \<Rightarrow> Option" where
  "WithHTTPClient hc = (\<lambda>c.
     if hc = None then (c, Some (ErrorString ''enzonix: http client must not be nil''))
     else (c\<lparr>httpClient := hc\<rparr>, None))"

definition WithUserAgent :: "string \<Rightarrow> Option" where
  "WithUserAgent ua = (\<lambda>c. (c\<lparr>userAgent := TrimSpace ua\<rparr>, None))"

text \<open>The loop of \<open>NewClient\<close> over its options: a nil option is skipped, the first
  error ends the loop.\<close>

fun apply_options :: "Option option list \<Rightarrow> Client \<Rightarrow> error + Client" where
  "apply_options [] client = Inr client"
| "apply_options (None # opts) client = apply_options opts client"
| "apply_options (Some opt # opts) client =
     (case opt client of
        (client', Some err) \<Rightarrow> Inl err
      | (client', None) \<Rightarrow> apply_options opts client')"

definition NewClient :: "string \<Rightarrow> Option option list \<Rightarrow> error + Client" where
  "NewClient key opts =
     (if TrimSpace key = [] then Inl (ErrorString ''enzonix: api key must not be empty'')
      else
        (case url_Parse defaultBaseURL of
           Inl err \<Rightarrow> Inl (WrapError ''enzonix: parse default base url: '' err)
         | Inr base \<Rightarrow>
             (case apply_options opts
                     \<lparr>baseURL = Some base, apiKey = key,
                      httpClient = Some \<lparr>Timeout = defaultTimeout\<rparr>,
                      userAgent = defaultUserAgent\<rparr> of
                Inl err \<Rightarrow> Inl err
              | Inr client \<Rightarrow>
                  Inr (if httpClient client = None
                       then client\<lparr>httpClient := Some \<lparr>Timeout = defaultTimeout\<rparr>\<rparr>
                       else client))))"

section \<open>Requests and responses\<close>

datatype Context = Background

text \<open>
  An \<^verbatim>\<open>*http.Request\<close>: the header is a map from (canonical) names to value lists;
  the names this package sets are canonical as written. \<open>None\<close> as body is a nil
  reader.
\<close>

type_synonym Header = "string \<rightharpoonup> string list"

definition Header_Set :: "Header \<Rightarrow> string \<Rightarrow> string \<Rightarrow> Header" where
  "Header_Set h k v = h(k \<mapsto> [v])"

definition Header_Get :: "Header \<Rightarrow> string \<Rightarrow> string" where
  "Header_Get h k = (case h k of None \<Rightarrow> [] | Some [] \<Rightarrow> [] | Some (v # _) \<Rightarrow> v)"

record Request =
  Ctx :: Context
  Method :: string
  ReqURL :: URL
  Header :: Header
  ReqBody :: "string option"
  ContentLength :: int
  ReqHost :: string

text \<open>
  A response body is a stream: it delivers \<open>content\<close> and then ends, or fails with
  \<open>failure\<close>. \<open>ReadAll_Limit r n\<close> is \<^verbatim>\<open>io.ReadAll(io.LimitReader(r, n))\<close>: at most
  \<open>n\<close> bytes are read; the failure is met only when the content is shorter than \<open>n\<close>.
\<close>

record ResponseBody =
  content :: string
  failure :: "error option"

record Response =
  Response_StatusCode :: int
  Response_Body :: ResponseBody

definition ReadAll_Limit :: "ResponseBody \<Rightarrow> nat \<Rightarrow> string \<times> error option" where
  "ReadAll_Limit r n =
     (take n (content r), if length (content r) < n then failure r else None)"

text \<open>\<^verbatim>\<open>http.NewRequestWithContext\<close>, with \<^verbatim>\<open>validMethod\<close> and \<^verbatim>\<open>removeEmptyPort\<close>.\<close>

definition validMethod :: "string \<Rightarrow> bool" where
  "validMethod m =
     (m \<noteq> [] \<and> list_all (\<lambda>c. isAlpha c \<or> isDigit c \<or> c \<in> set ''!#$%&'*+-.^_`|~'') m)"

definition removeEmptyPort :: "string \<Rightarrow> string" where
  "removeEmptyPort host =
     (case LastIndexByte host (CHR '':'') of
        None \<Rightarrow> host
      | Some i \<Rightarrow>
          (case LastIndexByte host (CHR '']'') of
             None \<Rightarrow> TrimSuffix host '':''
           | Some j \<Rightarrow> if i > j then TrimSuffix host '':'' else host))"

definition NewRequestWithContext ::
  "Context option \<Rightarrow> string \<Rightarrow> string \<Rightarrow> string option \<Rightarrow> error + Request" where
  "NewRequestWithContext ctx method0 url body =
     (let method = (if method0 = [] then ''GET'' else method0) in
      if \<not> validMethod method then Inl (ErrorString (''net/http: invalid method '' @ method))
      else (case ctx of
              None \<Rightarrow> Inl (ErrorString ''net/http: nil Context'')
            | Some cx \<Rightarrow>
                (case url_Parse url of
                   Inl err \<Rightarrow> Inl err
                 | Inr u \<Rightarrow>
                     Inr \<lparr>Ctx = cx, Method = method,
                          ReqURL = u\<lparr>Host := removeEmptyPort (Host u)\<rparr>,
                          Header = Map.empty, ReqBody = body,
                          ContentLength = (case body of None \<Rightarrow> 0 | Some b \<Rightarrow> int (length b)),
                          ReqHost = removeEmptyPort (Host u)\<rparr>)))"

text \<open>
  The state the methods of \<^verbatim>\<open>*Client\<close> run in: the client object their receiver
  points to, and two traces kept for the proofs, the requests \<open>newRequest\<close> has
  built and the requests handed to \<^verbatim>\<open>c.httpClient.Do\<close>, both in order.

  What the network answers is a parameter of the model: a \<open>transport\<close> gives, for the
  HTTP client used and the request, a response or a transport error. The JSON encoder
  of a request payload and the JSON decoder of a result are parameters too (\<open>marshal\<close>,
  \<open>unmarshal\<close>); only the decoder of \<^verbatim>\<open>APIError\<close> above is modelled in full.
\<close>

record world =
  client :: Client
  built :: "Request list"
  sent :: "Request list"

type_synonym transport = "http_Client \<Rightarrow> Request \<Rightarrow> error + Response"

definition newRequest ::
  "('b \<Rightarrow> error + string) \<Rightarrow> Context option \<Rightarrow> string \<Rightarrow> string \<Rightarrow> Values option \<Rightarrow> 'b option
     \<Rightarrow> world \<Rightarrow> (error + Request) \<times> world" where
  "newRequest marshal ctx method path query body w =
     (if ctx = None then (Inl (ErrorString ''enzonix: context must not be nil''), w)
      else
        (case url_Parse path of
           Inl err \<Rightarrow> (Inl (WrapError ''enzonix: parse path: '' err), w)
         | Inr rel \<Rightarrow>
             (case baseURL (client w) of
                None \<Rightarrow> (Inl (Panic ''nil pointer dereference''), w)
              | Some base \<Rightarrow>
                  (let u0 = ResolveReference base rel;
                       u = (case query of None \<Rightarrow> u0 | Some q \<Rightarrow> u0\<lparr>RawQuery := Values_Encode q\<rparr>)
                   in case (case body of None \<Rightarrow> Inr None | Some b \<Rightarrow> map_sum id Some (marshal b)) of
                        Inl err \<Rightarrow> (Inl (WrapError ''enzonix: encode request body: '' err), w)
                      | Inr bodyReader \<Rightarrow>
                          (case NewRequestWithContext ctx method (URL_String u) bodyReader of
                             Inl err \<Rightarrow> (Inl (WrapError ''enzonix: create request: '' err), w)
                           | Inr req0 \<Rightarrow>
                               (let h1 = Header_Set (Header req0) ''Authorization''
                                           (''Bearer '' @ apiKey (client w));
                                    h2 = Header_Set h1 ''Accept'' ''application/json'';
                                    h3 = (if body \<noteq> None
                                          then Header_Set h2 ''Content-Type'' ''application/json''
                                          else h2);
                                    h4 = (if userAgent (client w) \<noteq> []
                                          then Header_Set h3 ''User-Agent'' (userAgent (client w))
                                          else h3);
                                    req = req0\<lparr>Header := h4\<rparr>
                                in (Inr req, w\<lparr>built := built w @ [req]\<rparr>)))))))"

text \<open>
  \<^verbatim>\<open>Client.do\<close>. \<open>out\<close> is the variable the caller passes by pointer (\<open>None\<close> for
  nil); the result is the error returned and the variable after the call.
\<close>

definition do ::
  "transport \<Rightarrow> (string \<Rightarrow> 'a \<Rightarrow> 'a \<times> error option) \<Rightarrow> Request \<Rightarrow> 'a option
     \<Rightarrow> world \<Rightarrow> (error option \<times> 'a option) \<times> world" where
  "do rt unmarshal req out w =
     (case httpClient (client w) of
        None \<Rightarrow> ((Some (Panic ''nil pointer dereference''), out), w)
      | Some hc \<Rightarrow>
          (let w' = w\<lparr>sent := sent w @ [req]\<rparr> in
           case rt hc req of
             Inl err \<Rightarrow> ((Some (WrapError ''enzonix: request failed: '' err), out), w')
           | Inr res \<Rightarrow>
               (case ReadAll_Limit (Response_Body res) (2 ^ 20) of
                  (bodyBytes, Some err) \<Rightarrow>
                    ((Some (WrapError ''enzonix: read response: '' err), out), w')
                | (bodyBytes, None) \<Rightarrow>
                    if Response_StatusCode res \<ge> 400 then
                      (let apiErr = \<lparr>StatusCode = Response_StatusCode res, Message = [],
                                     Code = [], Raw = []\<rparr>
                       in if length bodyBytes > 0 then
                            (case json_Unmarshal bodyBytes apiErr of
                               (apiErr', Some err) \<Rightarrow>
                                 ((Some (API (apiErr'\<lparr>Message := TrimSpace bodyBytes\<rparr>)), out), w')
                             | (apiErr', None) \<Rightarrow>
                                 ((Some (API (apiErr'\<lparr>Raw := bodyBytes\<rparr>)), out), w'))
                          else ((Some (API apiErr), out), w'))
                    else
                      (case out of
                         None \<Rightarrow> ((None, out), w')
                       | Some v \<Rightarrow>
                           if length bodyBytes = 0 then ((None, out), w')
                           else (case unmarshal bodyBytes v of
                                   (v', Some err) \<Rightarrow>
                                     ((Some (WrapError ''enzonix: decode response: '' err), Some v'), w')
                                 | (v', None) \<Rightarrow> ((None, Some v'), w'))))))"

text \<open>\<^verbatim>\<open>parseAPIError\<close> (client API file): the read error is dropped.\<close>

definition parseAPIError :: "Response \<Rightarrow> error" where
  "parseAPIError res =
     (let body = fst (ReadAll_Limit (Response_Body res) (2 ^ 20));
          apiErr = \<lparr>StatusCode = Response_StatusCode res, Message = [], Code = [], Raw = []\<rparr>
      in if length body > 0 then
           (case json_Unmarshal body apiErr of
              (apiErr', Some err) \<Rightarrow> API (apiErr'\<lparr>Message := TrimSpace body\<rparr>)
            | (apiErr', None) \<Rightarrow> API (apiErr'\<lparr>Raw := body\<rparr>))
         else API apiErr)"

definition requireID :: "string \<Rightarrow> string \<Rightarrow> error option" where
  "requireID v label =
     (if TrimSpace v = [] then Some (ErrorString (''enzonix: '' @ label @ '' must not be empty''))
      else None)"

section \<open>The domain-scoped client API\<close>

text \<open>
  The data types of the client API file. Field names carry a prefix for their struct,
  since several structs share names (\<^verbatim>\<open>ID\<close>, \<^verbatim>\<open>Name\<close>, ...). A \<^verbatim>\<open>*time.Time\<close> is
  an optional instant, a \<^verbatim>\<open>*int\<close> an optional integer.
\<close>

type_synonym Time = int

record Domain =
  d_ID :: string
  d_ClientID :: string
  d_Name :: string
  d_Active :: bool
  d_CreatedAt :: "Time option"
  d_UpdatedAt :: "Time option"
  d_NameserverLastChecked :: "Time option"
  d_NameserverVerifiedAt :: "Time option"
  d_NameserverCheckStatus :: string

definition zero_Domain :: Domain where
  "zero_Domain = \<lparr>d_ID = [], d_ClientID = [], d_Name = [], d_Active = False, d_CreatedAt = None,
     d_UpdatedAt = None, d_NameserverLastChecked = None, d_NameserverVerifiedAt = None,
     d_NameserverCheckStatus = []\<rparr>"

record NameserverCheckResponse =
  nc_Domain :: Domain
  nc_Valid :: bool
  nc_Status :: string

record Record =
  r_ID :: string
  r_DomainID :: string
  r_Name :: string
  r_Type :: string
  r_TTL :: int
  r_CountryCodes :: "string list"
  r_Priority :: int
  r_Value :: string
  r_CreatedAt :: "Time option"
  r_UpdatedAt :: "Time option"

definition zero_Record :: Record where
  "zero_Record = \<lparr>r_ID = [], r_DomainID = [], r_Name = [], r_Type = [], r_TTL = 0,
     r_CountryCodes = [], r_Priority = 0, r_Value = [], r_CreatedAt = None, r_UpdatedAt = None\<rparr>"

record CreateRecordRequest =
  cr_DomainID :: string
  cr_Name :: string
  cr_Type :: string
  cr_Value :: string
  cr_TTL :: "int option"
  cr_Priority :: "int option"
  cr_CountryCodes :: "string list"

record UpdateRecordRequest =
  ur_Name :: "string option"
  ur_Type :: "string option"
  ur_Value :: "string option"
  ur_TTL :: "int option"
  ur_Priority :: "int option"
  ur_CountryCodes :: "string list"

record BindImportResponse =
  bi_Domain :: Domain
  bi_RecordsCreated :: int
  bi_Records :: "Record list"
  bi_PartialSuccess :: bool
  bi_Errors :: "string list"

record ClientProfile =
  cp_ID :: string
  cp_Name :: string
  cp_Email :: string
  cp_APIToken :: string
  cp_DomainLimit :: int
  cp_CreatedAt :: Time
  cp_UpdatedAt :: Time

definition clientAPIPrefix :: string where
  "clientAPIPrefix = ''/api/client''"

text \<open>A call with a nil body has no payload to encode.\<close>

definition no_payload :: "unit \<Rightarrow> error + string" where
  "no_payload u = Inr []"

definition no_target :: "string \<Rightarrow> unit \<Rightarrow> unit \<times> error option" where
  "no_target b u = (u, None)"

text \<open>
  Most methods end the same way: when \<open>newRequest\<close> fails its error is returned; else
  \<open>do\<close> runs with a fresh variable \<open>zero\<close>, and its error or the decoded variable is
  returned. \<open>send_decode\<close> is that common tail, written once.
\<close>

definition send_decode ::
  "transport \<Rightarrow> (string \<Rightarrow> 'a \<Rightarrow> 'a \<times> error option) \<Rightarrow> 'a
     \<Rightarrow> (error + Request) \<times> world \<Rightarrow> (error + 'a) \<times> world" where
  "send_decode rt unmarshal zero r =
     (case r of
        (Inl err, w1) \<Rightarrow> (Inl err, w1)
      | (Inr req, w1) \<Rightarrow>
          (case do rt unmarshal req (Some zero) w1 of
             ((Some err, out), w2) \<Rightarrow> (Inl err, w2)
           | ((None, out), w2) \<Rightarrow> (Inr (case out of None \<Rightarrow> zero | Some v \<Rightarrow> v), w2)))"

text \<open>The tail of the methods that pass a nil \<open>out\<close> and return only the error.\<close>

definition send_only :: "transport \<Rightarrow> (error + Request) \<times> world \<Rightarrow> error option \<times> world" where
  "send_only rt r =
     (case r of
        (Inl err, w1) \<Rightarrow> (Some err, w1)
      | (Inr req, w1) \<Rightarrow>
          (case do rt no_target req None w1 of ((err, out), w2) \<Rightarrow> (err, w2)))"

definition ListDomains ::
  "transport \<Rightarrow> (string \<Rightarrow> Domain list \<Rightarrow> Domain list \<times> error option) \<Rightarrow> Context option
     \<Rightarrow> world \<Rightarrow> (error + Domain list) \<times> world" where
  "ListDomains rt unmarshal ctx w =
     send_decode rt unmarshal []
       (newRequest no_payload ctx ''GET'' (clientAPIPrefix @ ''/domains'') None None w)"

definition CreateDomain ::
  "transport \<Rightarrow> ((string \<times> string) list \<Rightarrow> error + string)
     \<Rightarrow> (string \<Rightarrow> Domain \<Rightarrow> Domain \<times> error option) \<Rightarrow> Context option \<Rightarrow> string
     \<Rightarrow> world \<Rightarrow> (error + Domain) \<times> world" where
  "CreateDomain rt marshal unmarshal ctx name0 w =
     (let name = TrimSpace name0 in
      if name = [] then (Inl (ErrorString ''enzonix: domain name must not be empty''), w)
      else send_decode rt unmarshal zero_Domain
             (newRequest marshal ctx ''POST'' (clientAPIPrefix @ ''/domains'') None
                (Some [(''name'', name)]) w))"

definition DeleteDomain :: "transport \<Rightarrow> Context option \<Rightarrow> string \<Rightarrow> world \<Rightarrow> error option \<times> world" where
  "DeleteDomain rt ctx domainID w =
     (case requireID domainID ''domain id'' of
        Some err \<Rightarrow> (Some err, w)
      | None \<Rightarrow>
          send_only rt
            (newRequest no_payload ctx ''DELETE''
               (clientAPIPrefix @ ''/domains/'' @ PathEscape domainID) None None w))"

definition CheckNameserver ::
  "transport \<Rightarrow> (string \<Rightarrow> NameserverCheckResponse \<Rightarrow> NameserverCheckResponse \<times> error option)
     \<Rightarrow> Context option \<Rightarrow> string \<Rightarrow> world \<Rightarrow> (error + NameserverCheckResponse) \<times> world" where
  "CheckNameserver rt unmarshal ctx domainID w =
     (case requireID domainID ''domain id'' of
        Some err \<Rightarrow> (Inl err, w)
      | None \<Rightarrow>
          send_decode rt unmarshal \<lparr>nc_Domain = zero_Domain, nc_Valid = False, nc_Status = []\<rparr>
            (newRequest no_payload ctx ''POST''
               (clientAPIPrefix @ ''/domains/'' @ PathEscape domainID @ ''/check-nameserver'')
               None None w))"

definition ListDomainRecords ::
  "transport \<Rightarrow> (string \<Rightarrow> Record list \<Rightarrow> Record list \<times> error option) \<Rightarrow> Context option
     \<Rightarrow> string \<Rightarrow> world \<Rightarrow> (error + Record list) \<times> world" where
  "ListDomainRecords rt unmarshal ctx domainID w =
     (case requireID domainID ''domain id'' of
        Some err \<Rightarrow> (Inl err, w)
      | None \<Rightarrow>
          send_decode rt unmarshal []
            (newRequest no_payload ctx ''GET''
               (clientAPIPrefix @ ''/domains/'' @ PathEscape domainID @ ''/records'')
               None None w))"

definition CreateRecord ::
  "transport \<Rightarrow> (CreateRecordRequest \<Rightarrow> error + string)
     \<Rightarrow> (string \<Rightarrow> Record \<Rightarrow> Record \<times> error option) \<Rightarrow> Context option
     \<Rightarrow> CreateRecordRequest \<Rightarrow> world \<Rightarrow> (error + Record) \<times> world" where
  "CreateRecord rt marshal unmarshal ctx payload w =
     (case requireID (cr_DomainID payload) ''domain id'' of
        Some err \<Rightarrow> (Inl err, w)
      | None \<Rightarrow>
          if TrimSpace (cr_Name payload) = []
            then (Inl (ErrorString ''enzonix: record name must not be empty''), w)
          else if TrimSpace (cr_Type payload) = []
            then (Inl (ErrorString ''enzonix: record type must not be empty''), w)
          else if TrimSpace (cr_Value payload) = []
            then (Inl (ErrorString ''enzonix: record value must not be empty''), w)
          else send_decode rt unmarshal zero_Record
                 (newRequest marshal ctx ''POST'' (clientAPIPrefix @ ''/records'') None
                    (Some payload) w))"

definition UpdateRecord ::
  "transport \<Rightarrow> (UpdateRecordRequest \<Rightarrow> error + string)
     \<Rightarrow> (string \<Rightarrow> Record \<Rightarrow> Record \<times> error option) \<Rightarrow> Context option \<Rightarrow> string
     \<Rightarrow> UpdateRecordRequest \<Rightarrow> world \<Rightarrow> (error + Record) \<times> world" where
  "UpdateRecord rt marshal unmarshal ctx recordID payload w =
     (case requireID recordID ''record id'' of
        Some err \<Rightarrow> (Inl err, w)
      | None \<Rightarrow>
          send_decode rt unmarshal zero_Record
            (newRequest marshal ctx ''PUT'' (clientAPIPrefix @ ''/records/'' @ PathEscape recordID)
               None (Some payload) w))"

definition DeleteRecord :: "transport \<Rightarrow> Context option \<Rightarrow> string \<Rightarrow> world \<Rightarrow> error option \<times> world" where
  "DeleteRecord rt ctx recordID w =
     (case requireID recordID ''record id'' of
        Some err \<Rightarrow> (Some err, w)
      | None \<Rightarrow>
          send_only rt
            (newRequest no_payload ctx ''DELETE''
               (clientAPIPrefix @ ''/records/'' @ PathEscape recordID) None None w))"

text \<open>
  \<open>ExportBindZone\<close> does not go through \<open>do\<close>: it sends the request itself and
  returns what \<^verbatim>\<open>io.ReadAll\<close> returns, the bytes read and the read error. A nil slice
  is the empty string.
\<close>

definition ExportBindZone ::
  "transport \<Rightarrow> Context option \<Rightarrow> string \<Rightarrow> world \<Rightarrow> (string \<times> error option) \<times> world" where
  "ExportBindZone rt ctx domainID w =
     (case requireID domainID ''domain id'' of
        Some err \<Rightarrow> (([], Some err), w)
      | None \<Rightarrow>
          (case newRequest no_payload ctx ''GET''
                  (clientAPIPrefix @ ''/domains/'' @ PathEscape domainID @ ''/export/bind'')
                  None None w of
             (Inl err, w1) \<Rightarrow> (([], Some err), w1)
           | (Inr req0, w1) \<Rightarrow>
               (let req = req0\<lparr>Header := Header_Set (Header req0) ''Accept'' ''text/plain''\<rparr> in
                case httpClient (client w1) of
                  None \<Rightarrow> (([], Some (Panic ''nil pointer dereference'')), w1)
                | Some hc \<Rightarrow>
                    (let w2 = w1\<lparr>sent := sent w1 @ [req]\<rparr> in
                     case rt hc req of
                       Inl err \<Rightarrow> (([], Some (WrapError ''enzonix: request failed: '' err)), w2)
                     | Inr res \<Rightarrow>
                         if Response_StatusCode res \<ge> 400
                         then (([], Some (parseAPIError res)), w2)
                         else (ReadAll_Limit (Response_Body res) (4 * 2 ^ 20), w2)))))"

definition ImportBindZone ::
  "transport \<Rightarrow> (string \<Rightarrow> BindImportResponse \<Rightarrow> BindImportResponse \<times> error option)
     \<Rightarrow> Context option \<Rightarrow> string \<Rightarrow> string \<Rightarrow> world \<Rightarrow> (error + BindImportResponse) \<times> world" where
  "ImportBindZone rt unmarshal ctx zoneData contentType0 w =
     (if length zoneData = 0 then (Inl (ErrorString ''enzonix: zone data must not be empty''), w)
      else
        (let contentType = (if contentType0 = [] then ''text/plain'' else contentType0) in
         send_decode rt unmarshal
           \<lparr>bi_Domain = zero_Domain, bi_RecordsCreated = 0, bi_Records = [],
            bi_PartialSuccess = False, bi_Errors = []\<rparr>
           (case newRequest no_payload ctx ''POST'' (clientAPIPrefix @ ''/import/bind'') None None w of
              (Inl err, w1) \<Rightarrow> (Inl err, w1)
            | (Inr req, w1) \<Rightarrow>
                (Inr (req\<lparr>ReqBody := Some zoneData, ContentLength := int (length zoneData),
                          Header := Header_Set (Header req) ''Content-Type'' contentType\<rparr>), w1))))"

definition RotateAPIKey ::
  "transport \<Rightarrow> (string \<Rightarrow> ClientProfile \<Rightarrow> ClientProfile \<times> error option) \<Rightarrow> Context option
     \<Rightarrow> world \<Rightarrow> (error + ClientProfile) \<times> world" where
  "RotateAPIKey rt unmarshal ctx w =
     send_decode rt unmarshal
       \<lparr>cp_ID = [], cp_Name = [], cp_Email = [], cp_APIToken = [], cp_DomainLimit = 0,
        cp_CreatedAt = 0, cp_UpdatedAt = 0\<rparr>
       (newRequest no_payload ctx ''POST'' (clientAPIPrefix @ ''/rotate-api-key'') None None w)"

section \<open>The zone-scoped records API\<close>

text \<open>
  The records file declares \<^verbatim>\<open>Record\<close>, \<^verbatim>\<open>CreateRecordRequest\<close>,
  \<^verbatim>\<open>UpdateRecordRequest\<close>, \<^verbatim>\<open>CreateRecord\<close>, \<^verbatim>\<open>UpdateRecord\<close> and \<^verbatim>\<open>DeleteRecord\<close>
  again, for paths under \<^verbatim>\<open>/zones/{zone}/records\<close>; here they carry the prefix
  \<open>Zone\<close> or \<open>zone_\<close>. A Go \<^verbatim>\<open>uint\<close> is a natural number.
\<close>

record ZoneRecord =
  zr_ID :: string
  zr_Zone :: string
  zr_Name :: string
  zr_Type :: string
  zr_Content :: string
  zr_TTL :: int
  zr_Priority :: nat
  zr_Weight :: nat
  zr_CreatedAt :: "Time option"
  zr_UpdatedAt :: "Time option"

definition zero_ZoneRecord :: ZoneRecord where
  "zero_ZoneRecord = \<lparr>zr_ID = [], zr_Zone = [], zr_Name = [], zr_Type = [], zr_Content = [],
     zr_TTL = 0, zr_Priority = 0, zr_Weight = 0, zr_CreatedAt = None, zr_UpdatedAt = None\<rparr>"

record ListRecordsOptions =
  lo_Name :: string
  lo_Type :: string
  lo_Page :: int
  lo_PerPage :: int

record ZoneCreateRecordRequest =
  zc_Name :: string
  zc_Type :: string
  zc_Content :: string
  zc_TTL :: int
  zc_Priority :: nat
  zc_Weight :: nat

record ZoneUpdateRecordRequest =
  zu_Name :: "string option"
  zu_Type :: "string option"
  zu_Content :: "string option"
  zu_TTL :: "int option"
  zu_Priority :: "nat option"
  zu_Weight :: "nat option"

definition requireZone :: "string \<Rightarrow> error option" where
  "requireZone zone =
     (if TrimSpace zone = [] then Some (ErrorString ''enzonix: zone must not be empty'') else None)"

definition trimZone :: "string \<Rightarrow> string" where
  "trimZone zone = TrimSuffix (TrimSpace zone) ''.''"

definition zoneRecordsPath :: "string \<Rightarrow> string" where
  "zoneRecordsPath zone = ''/zones/'' @ PathEscape (trimZone zone) @ ''/records''"

definition zoneRecordPath :: "string \<Rightarrow> string \<Rightarrow> string" where
  "zoneRecordPath zone recordID = zoneRecordsPath zone @ ''/'' @ PathEscape recordID"

text \<open>\<^verbatim>\<open>strconv.Itoa\<close>: the decimal digits of an integer.\<close>

fun digits :: "nat \<Rightarrow> string" where
  "digits n = (if n < 10 then [char_of (48 + n)] else digits (n div 10) @ [char_of (48 + n mod 10)])"

definition Itoa :: "int \<Rightarrow> string" where
  "Itoa i = (if i < 0 then ''-'' @ digits (nat (- i)) else digits (nat i))"

declare digits.simps [simp del]

text \<open>The query of \<open>ListRecords\<close>: an empty, non-nil \<^verbatim>\<open>url.Values\<close>, filled from the
  options when they are given.\<close>

definition ListRecords_query :: "ListRecordsOptions option \<Rightarrow> Values" where
  "ListRecords_query opts =
     (case opts of
        None \<Rightarrow> []
      | Some opt \<Rightarrow>
          (let q1 = (if lo_Name opt \<noteq> [] then Values_Set [] ''name'' (lo_Name opt) else []);
               q2 = (if lo_Type opt \<noteq> [] then Values_Set q1 ''type'' (lo_Type opt) else q1);
               q3 = (if lo_Page opt > 0 then Values_Set q2 ''page'' (Itoa (lo_Page opt)) else q2)
           in if lo_PerPage opt > 0 then Values_Set q3 ''per_page'' (Itoa (lo_PerPage opt)) else q3))"

definition ListRecords ::
  "transport \<Rightarrow> (string \<Rightarrow> ZoneRecord list \<Rightarrow> ZoneRecord list \<times> error option) \<Rightarrow> Context option
     \<Rightarrow> string \<Rightarrow> ListRecordsOptions option \<Rightarrow> world \<Rightarrow> (error + ZoneRecord list) \<times> world" where
  "ListRecords rt unmarshal ctx zone opts w =
     (case requireZone zone of
        Some err \<Rightarrow> (Inl err, w)
      | None \<Rightarrow>
          send_decode rt unmarshal []
            (newRequest no_payload ctx ''GET'' (zoneRecordsPath zone)
               (Some (ListRecords_query opts)) None w))"

definition zone_CreateRecord ::
  "transport \<Rightarrow> (ZoneCreateRecordRequest \<Rightarrow> error + string)
     \<Rightarrow> (string \<Rightarrow> ZoneRecord \<Rightarrow> ZoneRecord \<times> error option) \<Rightarrow> Context option \<Rightarrow> string
     \<Rightarrow> ZoneCreateRecordRequest \<Rightarrow> world \<Rightarrow> (error + ZoneRecord) \<times> world" where
  "zone_CreateRecord rt marshal unmarshal ctx zone payload w =
     (case requireZone zone of
        Some err \<Rightarrow> (Inl err, w)
      | None \<Rightarrow>
          if TrimSpace (zc_Name payload) = []
            then (Inl (ErrorString ''enzonix: record name must not be empty''), w)
          else if TrimSpace (zc_Type payload) = []
            then (Inl (ErrorString ''enzonix: record type must not be empty''), w)
          else if TrimSpace (zc_Content payload) = []
            then (Inl (ErrorString ''enzonix: record content must not be empty''), w)
          else send_decode rt unmarshal zero_ZoneRecord
                 (newRequest marshal ctx ''POST'' (zoneRecordsPath zone) None (Some payload) w))"

definition zone_UpdateRecord ::
  "transport \<Rightarrow> (ZoneUpdateRecordRequest \<Rightarrow> error + string)
     \<Rightarrow> (string \<Rightarrow> ZoneRecord \<Rightarrow> ZoneRecord \<times> error option) \<Rightarrow> Context option \<Rightarrow> string
     \<Rightarrow> string \<Rightarrow> ZoneUpdateRecordRequest \<Rightarrow> world \<Rightarrow> (error + ZoneRecord) \<times> world" where
  "zone_UpdateRecord rt marshal unmarshal ctx zone recordID payload w =
     (case requireZone zone of
        Some err \<Rightarrow> (Inl err, w)
      | None \<Rightarrow>
          if TrimSpace recordID = []
            then (Inl (ErrorString ''enzonix: record id must not be empty''), w)
          else send_decode rt unmarshal zero_ZoneRecord
                 (newRequest marshal ctx ''PATCH'' (zoneRecordPath zone recordID) None
                    (Some payload) w))"

definition zone_DeleteRecord ::
  "transport \<Rightarrow> Context option \<Rightarrow> string \<Rightarrow> string \<Rightarrow> world \<Rightarrow> error option \<times> world" where
  "zone_DeleteRecord rt ctx zone recordID w =
     (case requireZone zone of
        Some err \<Rightarrow> (Some err, w)
      | None \<Rightarrow>
          if TrimSpace recordID = []
            then (Some (ErrorString ''enzonix: record id must not be empty''), w)
          else send_only rt
                 (newRequest no_payload ctx ''DELETE'' (zoneRecordPath zone recordID) None None w))"

section \<open>Values named in the properties\<close>

text \<open>
  Two shapes of URL: an absolute \<^verbatim>\<open>https\<close> URL with a host, a path and a query, and
  a reference that is only a path. \<open>defaultClient key\<close> is the client that \<open>NewClient\<close>
  builds before it applies the options: the default base address, the credential as
  given, a fresh HTTP client with the default timeout, the default user agent.
\<close>

definition https_URL :: "string \<Rightarrow> string \<Rightarrow> string \<Rightarrow> URL" where
  "https_URL host path query =
     \<lparr>Scheme = ''https'', Opaque = [], User = None, Host = host, Path = path, RawPath = [],
      OmitHost = False, ForceQuery = False, RawQuery = query, Fragment = [], RawFragment = []\<rparr>"

definition path_URL :: "string \<Rightarrow> URL" where
  "path_URL path =
     \<lparr>Scheme = [], Opaque = [], User = None, Host = [], Path = path, RawPath = [],
      OmitHost = False, ForceQuery = False, RawQuery = [], Fragment = [], RawFragment = []\<rparr>"

definition defaultClient :: "string \<Rightarrow> Client" where
  "defaultClient key =
     \<lparr>baseURL = Some (https_URL ''api.ns.enzonix.com'' [] []),
      apiKey = key, httpClient = Some \<lparr>Timeout = defaultTimeout\<rparr>,
      userAgent = defaultUserAgent\<rparr>"

text \<open>
  Vocabulary for paths. The segments of a path are the pieces between its slashes
  (\<open>splitSlash []\<close>, as \<open>resolvePath\<close> cuts them). A path is \<open>dot_free\<close> when no segment
  is \<^verbatim>\<open>.\<close> or \<^verbatim>\<open>..\<close>, \<open>rooted\<close> when it is empty or begins with a slash; \<open>segment e\<close>
  says that \<open>e\<close> is one segment other than the two dot segments; a \<open>plain_path\<close> needs
  no percent-encoding, so that it is its own escaped form.
\<close>

definition dot_free :: "string \<Rightarrow> bool" where
  "dot_free p = (''.'' \<notin> set (splitSlash [] p) \<and> ''..'' \<notin> set (splitSlash [] p))"

definition rooted :: "string \<Rightarrow> bool" where
  "rooted p = (p = [] \<or> hd p = CHR ''/'')"

definition segment :: "string \<Rightarrow> bool" where
  "segment e = (CHR ''/'' \<notin> set e \<and> e \<noteq> ''.'' \<and> e \<noteq> ''..'')"



text \<open>What the traces of a run say about the credential: every request that the run
  from \<open>w\<close> to \<open>w'\<close> handed to the HTTP client carries the bearer header of the client.\<close>

definition sends_authorized :: "world \<Rightarrow> world \<Rightarrow> bool" where
  "sends_authorized w w' =
     (\<exists>new. sent w' = sent w @ new \<and>
        (\<forall>r \<in> set new.
           Header r ''Authorization'' = Some [''Bearer '' @ apiKey (client w)]))"

text \<open>
  What a JSON object says about a string field, in the words of the specification: the
  field has the string of the last member that is named like the field and holds a
  string. \<open>member_gives f m\<close> is the string that one member (its key literal and the text
  of its value) gives to the field \<open>f\<close>, if any; \<open>json_field body f\<close> is the last such
  string among the members of the object \<open>body\<close>.
\<close>

definition member_gives :: "field \<Rightarrow> string \<times> string \<Rightarrow> string option" where
  "member_gives f m =
     (case unquoteBytes (fst m) of
        None \<Rightarrow> None
      | Some key \<Rightarrow>
          if lookupField key = Some f
          then (case string_value (snd m) of Inr (Some s) \<Rightarrow> Some s | _ \<Rightarrow> None)
          else None)"

definition last_given :: "field \<Rightarrow> (string \<times> string) list \<Rightarrow> string option" where
  "last_given f ms =
     (case filter (\<lambda>x. x \<noteq> None) (map (member_gives f) ms) of [] \<Rightarrow> None | xs \<Rightarrow> last xs)"

definition json_field :: "string \<Rightarrow> field \<Rightarrow> string option" where
  "json_field body f = last_given f (object_members (jtrim body))"

text \<open>The \<^verbatim>\<open>APIError\<close> that starts out with the status of a response.\<close>

definition newAPIError :: "int \<Rightarrow> APIError" where
  "newAPIError status = \<lparr>StatusCode = status, Message = [], Code = [], Raw = []\<rparr>"

section \<open>Fixtures of the test suite\<close>

text \<open>
  The client of the package's tests, \<^verbatim>\<open>NewClient("key", WithBaseURL("https://example.test/api"))\<close>,
  a state that holds it with empty traces, the request \<open>newRequest\<close> builds for it
  (without a body), and stub servers that answer every request with one status and
  body, as the \<^verbatim>\<open>httptest\<close> servers of the tests do.
\<close>

definition test_client :: Client where
  "test_client =
     (case NewClient ''key'' [Some (WithBaseURL ''https://example.test/api'')] of
        Inr c \<Rightarrow> c
      | Inl e \<Rightarrow> defaultClient [])"

definition test_world :: world where
  "test_world = \<lparr>client = test_client, built = [], sent = []\<rparr>"

definition test_request :: "string \<Rightarrow> string \<Rightarrow> string \<Rightarrow> Request" where
  "test_request m path query =
     \<lparr>Ctx = Background, Method = m, ReqURL = https_URL ''example.test'' path query,
      Header = [''Authorization'' \<mapsto> [''Bearer key''], ''Accept'' \<mapsto> [''application/json''],
                ''User-Agent'' \<mapsto> [defaultUserAgent]],
      ReqBody = None, ContentLength = 0, ReqHost = ''example.test''\<rparr>"

definition stub_server :: "int \<Rightarrow> string \<Rightarrow> transport" where
  "stub_server status body = (\<lambda>hc req.
     Inr \<lparr>Response_StatusCode = status,
          Response_Body = \<lparr>content = body, failure = None\<rparr>\<rparr>)"

text \<open>Two error bodies: the JSON body of the test \<^verbatim>\<open>TestDoHandlesHTTPError\<close>, and a plain
  text as \<^verbatim>\<open>http.Error\<close> writes it, with a line feed at its end.\<close>

definition oops_body :: string where
  \<open>oops_body = ''{"message":"oops","code":"bad_request"}''\<close>

definition not_found_body :: string where
  "not_found_body = ''not found'' @ [CHR 0x0A]"

text \<open>A server whose body breaks off after some bytes.\<close>

definition broken_server :: "int \<Rightarrow> string \<Rightarrow> transport" where
  "broken_server status body = (\<lambda>hc req.
     Inr \<lparr>Response_StatusCode = status,
          Response_Body = \<lparr>content = body, failure = Some (ExternalError ''unexpected EOF'')\<rparr>\<rparr>)"

section \<open>Properties\<close>

subsection \<open>Evaluation rules\<close>

lemmas char_defs = byte_def isUpper_def isLower_def isAlpha_def isDigit_def toLower_def
  toUpper_def asciiSpace_def space2_def space3_def char_of_eq_iff

lemmas str_defs = HasPrefix_def HasSuffix_def TrimSuffix_def LastIndexByte_def Cut_def Count_def
  TrimSpace_def TrimRightSpace_def

lemmas url_defs = url_Parse_def parse_def getScheme_def stringContainsCTLByte_def emptyURL_def
  parse_authority_and_path_def parseAuthority_def parseHost_def shouldEscape_def setPath_def
  escape_def upperhex_def validOptionalPort_def IsAbs_def

lemma TrimSpace_examples:
  "TrimSpace '' key  '' = ''key'' \<and> TrimSpace ''   '' = [] \<and> TrimSpace [] = []
     \<and> TrimSpace ''key'' = ''key''"
  by (simp add: char_defs str_defs)

lemma url_Parse_defaultBaseURL:
  "url_Parse defaultBaseURL = Inr (https_URL ''api.ns.enzonix.com'' [] [])"
  by (simp add: defaultBaseURL_def https_URL_def char_defs str_defs url_defs)

subsection \<open>Construction\<close>

lemma apply_options_filter:
  "apply_options (filter (\<lambda>opt. opt \<noteq> None) opts) c = apply_options opts c"
  by (induction opts c rule: apply_options.induct) (auto split: prod.splits option.splits)

lemma apply_options_insert_nil:
  "apply_options (pre @ None # post) c = apply_options (pre @ post) c"
  by (induction pre c rule: apply_options.induct) (auto split: prod.splits option.splits)

lemma apply_options_append_fail:
  "apply_options pre c = Inr c' \<Longrightarrow> snd (opt c') = Some e \<Longrightarrow>
   apply_options (pre @ Some opt # post) c = Inl e"
  by (induction pre c rule: apply_options.induct) (auto split: prod.splits option.splits)

lemma apply_options_fail_decompose:
  "apply_options opts c = Inl e \<Longrightarrow>
   \<exists>pre opt post c'. opts = pre @ Some opt # post \<and> apply_options pre c = Inr c'
      \<and> snd (opt c') = Some e"
proof (induction opts c rule: apply_options.induct)
  case (1 client)
  then show ?case by simp
next
  case (2 opts client)
  then obtain pre opt post c' where
    "opts = pre @ Some opt # post" "apply_options pre client = Inr c'" "snd (opt c') = Some e"
    by auto
  then have "None # opts = (None # pre) @ Some opt # post \<and>
    apply_options (None # pre) client = Inr c' \<and> snd (opt c') = Some e"
    by simp
  then show ?case by blast
next
  case (3 opt opts client)
  show ?case
  proof (cases "snd (opt client)")
    case None
    then obtain client' where oc: "opt client = (client', None)"
      by (cases "opt client") auto
    from 3(2) oc have "apply_options opts client' = Inl e" by simp
    from 3(1)[OF oc[symmetric] refl this] obtain pre opt' post c' where
      "opts = pre @ Some opt' # post" "apply_options pre client' = Inr c'"
      "snd (opt' c') = Some e"
      by blast
    with oc have "Some opt # opts = (Some opt # pre) @ Some opt' # post \<and>
      apply_options (Some opt # pre) client = Inr c' \<and> snd (opt' c') = Some e"
      by simp
    then show ?thesis by blast
  next
    case (Some err)
    with 3(2) have "err = e" by (cases "opt client") auto
    with Some have "Some opt # opts = [] @ Some opt # opts \<and>
      apply_options [] client = Inr client \<and> snd (opt client) = Some e"
      by simp
    then show ?thesis by blast
  qed
qed

text \<open>
  C3. \<open>NewClient\<close> returns an error exactly when the trimmed credential is empty, or
  when some option of the list returns an error on the client that the options before
  it have produced; the error returned is then that of the first such option. The
  result is either an error or a client, never both, so no partly configured client
  comes out. Of the options of the package, \<open>WithBaseURL\<close> returns an error exactly for
  a blank, an unparseable or a non-absolute address, \<open>WithHTTPClient\<close> exactly for nil,
  and \<open>WithUserAgent\<close> never.
\<close>

theorem NewClient_error_iff:
  "(NewClient key opts = Inl e \<longleftrightarrow>
      (TrimSpace key = [] \<and> e = ErrorString ''enzonix: api key must not be empty'') \<or>
      (TrimSpace key \<noteq> [] \<and>
       (\<exists>pre opt post c'. opts = pre @ Some opt # post \<and>
           apply_options pre (defaultClient key) = Inr c' \<and> snd (opt c') = Some e)))
   \<and> (snd (WithBaseURL rawURL c) \<noteq> None \<longleftrightarrow>
        TrimSpace rawURL = [] \<or> (\<exists>err. url_Parse rawURL = Inl err) \<or>
        (\<exists>u. url_Parse rawURL = Inr u \<and> \<not> IsAbs u))
   \<and> (snd (WithHTTPClient hc c) \<noteq> None \<longleftrightarrow> hc = None)
   \<and> snd (WithUserAgent ua c) = None"
proof (intro conjI)
  show "NewClient key opts = Inl e \<longleftrightarrow>
      (TrimSpace key = [] \<and> e = ErrorString ''enzonix: api key must not be empty'') \<or>
      (TrimSpace key \<noteq> [] \<and>
       (\<exists>pre opt post c'. opts = pre @ Some opt # post \<and>
           apply_options pre (defaultClient key) = Inr c' \<and> snd (opt c') = Some e))"
  proof (cases "TrimSpace key = []")
    case True
    then show ?thesis by (auto simp: NewClient_def)
  next
    case False
    have "NewClient key opts = Inl e \<longleftrightarrow> apply_options opts (defaultClient key) = Inl e"
      using False
      by (simp add: NewClient_def url_Parse_defaultBaseURL defaultClient_def split: sum.splits)
    also have "\<dots> \<longleftrightarrow> (\<exists>pre opt post c'. opts = pre @ Some opt # post \<and>
           apply_options pre (defaultClient key) = Inr c' \<and> snd (opt c') = Some e)"
      using apply_options_fail_decompose apply_options_append_fail by blast
    finally show ?thesis using False by simp
  qed
  show "snd (WithBaseURL rawURL c) \<noteq> None \<longleftrightarrow>
        TrimSpace rawURL = [] \<or> (\<exists>err. url_Parse rawURL = Inl err) \<or>
        (\<exists>u. url_Parse rawURL = Inr u \<and> \<not> IsAbs u)"
    by (auto simp: WithBaseURL_def split: sum.splits)
  show "snd (WithHTTPClient hc c) \<noteq> None \<longleftrightarrow> hc = None"
    by (simp add: WithHTTPClient_def)
  show "snd (WithUserAgent ua c) = None"
    by (simp add: WithUserAgent_def)
qed

theorem NewClient_error_iff_witness:
  "NewClient ''key''
     [None, Some (WithUserAgent ''ua''), Some (WithHTTPClient None), Some (WithBaseURL [])]
     = Inl (ErrorString ''enzonix: http client must not be nil'')"
proof -
  have "TrimSpace ''key'' \<noteq> [] \<and>
       (\<exists>pre opt post c'.
           [None, Some (WithUserAgent ''ua''), Some (WithHTTPClient None), Some (WithBaseURL [])]
             = pre @ Some opt # post \<and>
           apply_options pre (defaultClient ''key'') = Inr c' \<and>
           snd (opt c') = Some (ErrorString ''enzonix: http client must not be nil''))"
    apply (rule conjI)
     apply (simp add: TrimSpace_examples)
    apply (rule exI[of _ "[None, Some (WithUserAgent ''ua'')]"])
    apply (rule exI[of _ "WithHTTPClient None"])
    apply (rule exI[of _ "[Some (WithBaseURL [])]"])
    apply (simp add: WithUserAgent_def WithHTTPClient_def)
    done
  then show ?thesis
    using NewClient_error_iff[THEN conjunct1, of "''key''" _
        "ErrorString ''enzonix: http client must not be nil''"]
    by blast
qed

text \<open>
  C10. \<open>NewClient\<close> skips the nil entries of its option list: a nil entry put anywhere
  into the list does not change the result, the list without its nil entries gives the
  same result, and with a credential that is not blank \<open>NewClient key [nil]\<close> returns
  the client with the defaults.
\<close>

theorem NewClient_skips_nil:
  "NewClient key (pre @ None # post) = NewClient key (pre @ post)
   \<and> NewClient key (filter (\<lambda>opt. opt \<noteq> None) opts) = NewClient key opts
   \<and> (TrimSpace key \<noteq> [] \<longrightarrow> NewClient key [None] = Inr (defaultClient key))"
proof (intro conjI impI)
  show "NewClient key (pre @ None # post) = NewClient key (pre @ post)"
    by (simp only: NewClient_def apply_options_insert_nil)
  show "NewClient key (filter (\<lambda>opt. opt \<noteq> None) opts) = NewClient key opts"
    by (simp only: NewClient_def apply_options_filter)
  show "NewClient key [None] = Inr (defaultClient key)" if "TrimSpace key \<noteq> []"
    using that by (simp add: NewClient_def url_Parse_defaultBaseURL defaultClient_def)
qed

theorem NewClient_skips_nil_witness:
  "NewClient ''key'' [None] = Inr (defaultClient ''key'')
   \<and> NewClient ''key'' [Some (WithUserAgent ''ua''), None]
       = NewClient ''key'' [Some (WithUserAgent ''ua'')]"
proof -
  have h: "TrimSpace ''key'' \<noteq> []" by (simp add: TrimSpace_examples)
  from NewClient_skips_nil[of "''key''" "[Some (WithUserAgent ''ua'')]" "[]" "[]"] h
  show ?thesis by simp
qed

subsection \<open>Evaluation of the fixtures\<close>

lemmas url_string_defs = URL_String_def EscapedPath_def escape_def shouldEscape_def upperhex_def

lemmas resolve_defs = ResolveReference_def EscapedPath_def resolvePath_def escape_def
  shouldEscape_def resolve_step_def setPath_ignore_def setPath_def upperhex_def

lemma url_Parse_test_base:
  "url_Parse ''https://example.test/api'' = Inr (https_URL ''example.test'' ''/api'' [])"
  by (simp add: https_URL_def char_defs str_defs url_defs)

lemma TrimSpace_test_base: "TrimSpace ''https://example.test/api'' \<noteq> []"
  by (simp add: char_defs str_defs)

lemma test_client_simps:
  "NewClient ''key'' [Some (WithBaseURL ''https://example.test/api'')] = Inr test_client"
  "baseURL test_client = Some (https_URL ''example.test'' ''/api'' [])"
  "apiKey test_client = ''key''"
  "httpClient test_client = Some \<lparr>Timeout = defaultTimeout\<rparr>"
  "userAgent test_client = defaultUserAgent"
  by (simp_all add: test_client_def NewClient_def TrimSpace_examples url_Parse_defaultBaseURL
      WithBaseURL_def url_Parse_test_base TrimSpace_test_base IsAbs_def https_URL_def)

lemma test_world_simps:
  "client test_world = test_client" "built test_world = []" "sent test_world = []"
  by (simp_all add: test_world_def)

lemma removeEmptyPort_test: "removeEmptyPort ''example.test'' = ''example.test''"
  by (simp add: removeEmptyPort_def LastIndexByte_def)

lemma https_URL_simps:
  "Host (https_URL h p q) = h"
  "(https_URL h p q)\<lparr>RawQuery := q'\<rparr> = https_URL h p q'"
  "(https_URL h p q)\<lparr>Host := h'\<rparr> = https_URL h' p q"
  by (simp_all add: https_URL_def)

text \<open>With the test client, \<open>newRequest\<close> without a body succeeds as soon as the path
  parses, resolves against the base and the resulting URL parses again.\<close>

lemma newRequest_test_world:
  assumes "url_Parse path = Inr (path_URL path)"
    and "ResolveReference (https_URL ''example.test'' ''/api'' []) (path_URL path)
           = https_URL ''example.test'' path []"
    and "url_Parse (URL_String (https_URL ''example.test'' path q))
           = Inr (https_URL ''example.test'' path q)"
    and "validMethod m" and "m \<noteq> []"
    and "q = (case query of None \<Rightarrow> [] | Some v \<Rightarrow> Values_Encode v)"
  shows "newRequest no_payload (Some Background) m path query (None::unit option) test_world
    = (Inr (test_request m path q), test_world\<lparr>built := [test_request m path q]\<rparr>)"
  using assms
  by (simp add: newRequest_def test_world_simps test_client_simps NewRequestWithContext_def
       Let_def removeEmptyPort_test test_request_def Header_Set_def defaultUserAgent_def
       https_URL_simps split: option.splits)

lemma url_Parse_domain_path:
  "url_Parse ''/api/client/domains/domain-1'' = Inr (path_URL ''/api/client/domains/domain-1'')"
  by (simp add: path_URL_def char_defs str_defs url_defs)

lemma Resolve_domain_path:
  "ResolveReference (https_URL ''example.test'' ''/api'' [])
      (path_URL ''/api/client/domains/domain-1'')
    = https_URL ''example.test'' ''/api/client/domains/domain-1'' []"
  by (simp add: https_URL_def path_URL_def resolve_defs char_defs str_defs)

lemma String_domain_path:
  "URL_String (https_URL ''example.test'' ''/api/client/domains/domain-1'' [])
    = ''https://example.test/api/client/domains/domain-1''"
  by (simp add: https_URL_def url_string_defs char_defs str_defs)

lemma url_Parse_domain_url:
  "url_Parse ''https://example.test/api/client/domains/domain-1'' =
    Inr (https_URL ''example.test'' ''/api/client/domains/domain-1'' [])"
  by (simp add: https_URL_def char_defs str_defs url_defs)

lemma validMethod_simps: "validMethod ''DELETE''" "validMethod ''GET''"
  by (simp_all add: validMethod_def char_defs)

lemma newRequest_domain:
  "newRequest no_payload (Some Background) ''DELETE'' ''/api/client/domains/domain-1'' None
      (None::unit option) test_world
    = (Inr (test_request ''DELETE'' ''/api/client/domains/domain-1'' []),
       test_world\<lparr>built := [test_request ''DELETE'' ''/api/client/domains/domain-1'' []]\<rparr>)"
  by (rule newRequest_test_world)
     (simp_all add: url_Parse_domain_path Resolve_domain_path String_domain_path
        url_Parse_domain_url validMethod_simps)

lemma domain1_simps:
  "PathEscape ''domain-1'' = ''domain-1''" "TrimSpace ''domain-1'' = ''domain-1''"
  by (simp_all add: PathEscape_def escape_def shouldEscape_def char_defs str_defs)

text \<open>\<open>do\<close> with the test client, after \<open>newRequest\<close>: the HTTP client is there, so the
  request is sent.\<close>

lemma do_test_world:
  "do rt unmarshal req out (test_world\<lparr>built := b\<rparr>) =
     (let w' = test_world\<lparr>built := b, sent := [req]\<rparr> in
      case rt \<lparr>Timeout = defaultTimeout\<rparr> req of
        Inl err \<Rightarrow> ((Some (WrapError ''enzonix: request failed: '' err), out), w')
      | Inr res \<Rightarrow>
          (case ReadAll_Limit (Response_Body res) (2 ^ 20) of
             (bodyBytes, Some err) \<Rightarrow>
               ((Some (WrapError ''enzonix: read response: '' err), out), w')
           | (bodyBytes, None) \<Rightarrow>
               if Response_StatusCode res \<ge> 400 then
                 (let apiErr = \<lparr>StatusCode = Response_StatusCode res, Message = [],
                                Code = [], Raw = []\<rparr>
                  in if length bodyBytes > 0 then
                       (case json_Unmarshal bodyBytes apiErr of
                          (apiErr', Some err) \<Rightarrow>
                            ((Some (API (apiErr'\<lparr>Message := TrimSpace bodyBytes\<rparr>)), out), w')
                        | (apiErr', None) \<Rightarrow>
                            ((Some (API (apiErr'\<lparr>Raw := bodyBytes\<rparr>)), out), w'))
                     else ((Some (API apiErr), out), w'))
               else
                 (case out of
                    None \<Rightarrow> ((None, out), w')
                  | Some v \<Rightarrow>
                      if length bodyBytes = 0 then ((None, out), w')
                      else (case unmarshal bodyBytes v of
                              (v', Some err) \<Rightarrow>
                                ((Some (WrapError ''enzonix: decode response: '' err), Some v'), w')
                            | (v', None) \<Rightarrow> ((None, Some v'), w')))))"
  by (simp add: do_def test_world_simps test_client_simps Let_def)

lemma DeleteDomain_test_world:
  "DeleteDomain rt (Some Background) ''domain-1'' test_world =
     (case do rt no_target (test_request ''DELETE'' ''/api/client/domains/domain-1'' []) None
             (test_world\<lparr>built := [test_request ''DELETE'' ''/api/client/domains/domain-1'' []]\<rparr>) of
        ((err, out), w2) \<Rightarrow> (err, w2))"
  by (simp add: DeleteDomain_def requireID_def domain1_simps clientAPIPrefix_def newRequest_domain
        send_only_def)

lemma DeleteDomain_ok:
  "DeleteDomain (stub_server 200 []) (Some Background) ''domain-1'' test_world
    = (None, test_world\<lparr>built := [test_request ''DELETE'' ''/api/client/domains/domain-1'' []],
         sent := [test_request ''DELETE'' ''/api/client/domains/domain-1'' []]\<rparr>)"
  by (simp add: DeleteDomain_test_world do_test_world stub_server_def ReadAll_Limit_def)

subsection \<open>What a call leaves unchanged\<close>

lemma newRequest_Inl:
  "newRequest marshal ctx meth path query body w = (Inl e, w') \<Longrightarrow> w' = w"
  by (auto simp: newRequest_def Let_def split: if_splits sum.splits option.splits)

lemma newRequest_Inr:
  assumes "newRequest marshal ctx meth path query body w = (Inr req, w')"
  shows "w' = w\<lparr>built := built w @ [req]\<rparr>"
    and "Header req ''Authorization'' = Some [''Bearer '' @ apiKey (client w)]"
    and "Header req ''Accept'' = Some [''application/json'']"
    and "Header req ''Content-Type'' = (if body = None then None else Some [''application/json''])"
    and "Header req ''User-Agent'' =
           (if userAgent (client w) = [] then None else Some [userAgent (client w)])"
  using assms
  by (auto simp: newRequest_def Let_def Header_Set_def NewRequestWithContext_def
      split: if_splits sum.splits option.splits)

lemma do_frame:
  assumes "do rt unmarshal req out w = (res, w')"
  shows "client w' = client w" and "built w' = built w"
    and "sent w' = sent w \<or> sent w' = sent w @ [req]"
  using assms
  by (auto simp: do_def Let_def split: if_splits sum.splits option.splits prod.splits)

lemma sends_authorized_refl: "sends_authorized w w"
  by (simp add: sends_authorized_def)

lemma do_authorized:
  assumes "Header req ''Authorization'' = Some [''Bearer '' @ apiKey (client w)]"
    and "client w1 = client w" and "sent w1 = sent w"
  shows "sends_authorized w (snd (do rt unmarshal req out w1))"
    and "client (snd (do rt unmarshal req out w1)) = client w"
proof -
  obtain res w2 where d: "do rt unmarshal req out w1 = (res, w2)"
    by (cases "do rt unmarshal req out w1")
  from do_frame[OF d] assms show "sends_authorized w (snd (do rt unmarshal req out w1))"
    by (auto simp: d sends_authorized_def)
  from do_frame[OF d] assms show "client (snd (do rt unmarshal req out w1)) = client w"
    by (simp add: d)
qed

lemma send_decode_frame:
  assumes "client w1 = client w" and "sent w1 = sent w"
    and "\<And>req. x = Inr req \<Longrightarrow>
           Header req ''Authorization'' = Some [''Bearer '' @ apiKey (client w)]"
  shows "sends_authorized w (snd (send_decode rt unmarshal zero (x, w1)))"
    and "client (snd (send_decode rt unmarshal zero (x, w1))) = client w"
proof -
  show "sends_authorized w (snd (send_decode rt unmarshal zero (x, w1)))"
  proof (cases x)
    case (Inl e)
    with assms show ?thesis by (simp add: send_decode_def sends_authorized_def)
  next
    case (Inr req)
    with do_authorized(1)[OF assms(3)[OF Inr] assms(1,2), of rt unmarshal "Some zero"]
    show ?thesis by (auto simp: send_decode_def split: prod.splits option.splits)
  qed
  show "client (snd (send_decode rt unmarshal zero (x, w1))) = client w"
  proof (cases x)
    case (Inl e)
    with assms show ?thesis by (simp add: send_decode_def)
  next
    case (Inr req)
    with do_authorized(2)[OF assms(3)[OF Inr] assms(1,2), of rt unmarshal "Some zero"]
    show ?thesis by (auto simp: send_decode_def split: prod.splits option.splits)
  qed
qed

lemma send_only_frame:
  assumes "client w1 = client w" and "sent w1 = sent w"
    and "\<And>req. x = Inr req \<Longrightarrow>
           Header req ''Authorization'' = Some [''Bearer '' @ apiKey (client w)]"
  shows "sends_authorized w (snd (send_only rt (x, w1)))"
    and "client (snd (send_only rt (x, w1))) = client w"
proof -
  show "sends_authorized w (snd (send_only rt (x, w1)))"
  proof (cases x)
    case (Inl e)
    with assms show ?thesis by (simp add: send_only_def sends_authorized_def)
  next
    case (Inr req)
    with do_authorized(1)[OF assms(3)[OF Inr] assms(1,2), of rt no_target None]
    show ?thesis by (auto simp: send_only_def split: prod.splits option.splits)
  qed
  show "client (snd (send_only rt (x, w1))) = client w"
  proof (cases x)
    case (Inl e)
    with assms show ?thesis by (simp add: send_only_def)
  next
    case (Inr req)
    with do_authorized(2)[OF assms(3)[OF Inr] assms(1,2), of rt no_target None]
    show ?thesis by (auto simp: send_only_def split: prod.splits option.splits)
  qed
qed

lemma newRequest_frame:
  "\<exists>x w1. newRequest marshal ctx meth path query body w = (x, w1)
     \<and> client w1 = client w \<and> sent w1 = sent w
     \<and> (\<forall>req. x = Inr req \<longrightarrow>
           Header req ''Authorization'' = Some [''Bearer '' @ apiKey (client w)])"
proof -
  obtain x w1 where n: "newRequest marshal ctx meth path query body w = (x, w1)"
    by (cases "newRequest marshal ctx meth path query body w")
  show ?thesis
  proof (cases x)
    case (Inl e)
    with n newRequest_Inl[of marshal ctx meth path query body w e w1] show ?thesis by auto
  next
    case (Inr req)
    with n newRequest_Inr(1,2)[of marshal ctx meth path query body w req w1]
    show ?thesis by auto
  qed
qed

lemma send_decode_newRequest:
  "sends_authorized w
     (snd (send_decode rt unmarshal zero (newRequest marshal ctx meth path query body w)))"
  "client (snd (send_decode rt unmarshal zero (newRequest marshal ctx meth path query body w)))
     = client w"
proof -
  obtain x w1 where h: "newRequest marshal ctx meth path query body w = (x, w1)"
    "client w1 = client w" "sent w1 = sent w"
    "\<And>req. x = Inr req \<Longrightarrow>
        Header req ''Authorization'' = Some [''Bearer '' @ apiKey (client w)]"
    using newRequest_frame[of marshal ctx meth path query body w] by blast
  from send_decode_frame[OF h(2,3,4)] h(1)
  show "sends_authorized w
     (snd (send_decode rt unmarshal zero (newRequest marshal ctx meth path query body w)))"
    "client (snd (send_decode rt unmarshal zero (newRequest marshal ctx meth path query body w)))
     = client w"
    by auto
qed

lemma send_only_newRequest:
  "sends_authorized w (snd (send_only rt (newRequest marshal ctx meth path query body w)))"
  "client (snd (send_only rt (newRequest marshal ctx meth path query body w))) = client w"
proof -
  obtain x w1 where h: "newRequest marshal ctx meth path query body w = (x, w1)"
    "client w1 = client w" "sent w1 = sent w"
    "\<And>req. x = Inr req \<Longrightarrow>
        Header req ''Authorization'' = Some [''Bearer '' @ apiKey (client w)]"
    using newRequest_frame[of marshal ctx meth path query body w] by blast
  from send_only_frame[OF h(2,3,4)] h(1)
  show "sends_authorized w (snd (send_only rt (newRequest marshal ctx meth path query body w)))"
    "client (snd (send_only rt (newRequest marshal ctx meth path query body w))) = client w"
    by auto
qed

lemma ImportBindZone_frame:
  "sends_authorized w (snd (ImportBindZone rt unmarshal ctx zoneData contentType w))"
  "client (snd (ImportBindZone rt unmarshal ctx zoneData contentType w)) = client w"
proof -
  let ?nr = "newRequest no_payload ctx ''POST'' (clientAPIPrefix @ ''/import/bind'') None
               (None::unit option) w"
  obtain x w1 where h: "?nr = (x, w1)"
    "client w1 = client w" "sent w1 = sent w"
    "\<And>req. x = Inr req \<Longrightarrow>
        Header req ''Authorization'' = Some [''Bearer '' @ apiKey (client w)]"
    using newRequest_frame[of no_payload ctx "''POST''" "clientAPIPrefix @ ''/import/bind''"
        None None w]
    by blast
  define ct where "ct = (if contentType = [] then ''text/plain'' else contentType)"
  define x' where "x' = (case x of Inl err \<Rightarrow> Inl err
     | Inr req \<Rightarrow> Inr (req\<lparr>ReqBody := Some zoneData, ContentLength := int (length zoneData),
                          Header := Header_Set (Header req) ''Content-Type'' ct\<rparr>))"
  have auth: "\<And>req. x' = Inr req \<Longrightarrow>
        Header req ''Authorization'' = Some [''Bearer '' @ apiKey (client w)]"
    using h(4) by (auto simp: x'_def Header_Set_def split: sum.splits)
  have eq: "(case ?nr of (Inl err, w1) \<Rightarrow> (Inl err, w1)
            | (Inr req, w1) \<Rightarrow>
                (Inr (req\<lparr>ReqBody := Some zoneData, ContentLength := int (length zoneData),
                          Header := Header_Set (Header req) ''Content-Type'' ct\<rparr>), w1)) = (x', w1)"
    by (simp add: h(1) x'_def split: sum.splits)
  show "sends_authorized w (snd (ImportBindZone rt unmarshal ctx zoneData contentType w))"
    "client (snd (ImportBindZone rt unmarshal ctx zoneData contentType w)) = client w"
    unfolding ImportBindZone_def Let_def ct_def[symmetric] eq
    by (simp_all add: sends_authorized_refl send_decode_frame[where x = x', OF h(2,3) auth])
qed

lemma ExportBindZone_frame:
  "sends_authorized w (snd (ExportBindZone rt ctx domainID w))"
  "client (snd (ExportBindZone rt ctx domainID w)) = client w"
proof -
  let ?nr = "newRequest no_payload ctx ''GET''
     (clientAPIPrefix @ ''/domains/'' @ PathEscape domainID @ ''/export/bind'') None
     (None::unit option) w"
  obtain x w1 where h: "?nr = (x, w1)"
    "client w1 = client w" "sent w1 = sent w"
    "\<And>req. x = Inr req \<Longrightarrow>
        Header req ''Authorization'' = Some [''Bearer '' @ apiKey (client w)]"
    using newRequest_frame[of no_payload ctx "''GET''"
        "clientAPIPrefix @ ''/domains/'' @ PathEscape domainID @ ''/export/bind''" None None w]
    by blast
  have "sent (snd (ExportBindZone rt ctx domainID w)) = sent w @ [] \<or>
    (\<exists>req. x = Inr req \<and> sent (snd (ExportBindZone rt ctx domainID w)) =
       sent w @ [req\<lparr>Header := Header_Set (Header req) ''Accept'' ''text/plain''\<rparr>])"
    using h(2,3) unfolding ExportBindZone_def h(1)
    by (auto simp: Let_def split: option.splits sum.splits)
  then show "sends_authorized w (snd (ExportBindZone rt ctx domainID w))"
  proof
    assume "sent (snd (ExportBindZone rt ctx domainID w)) = sent w @ []"
    then show ?thesis unfolding sends_authorized_def by (intro exI[of _ "[]"]) simp
  next
    assume "\<exists>req. x = Inr req \<and> sent (snd (ExportBindZone rt ctx domainID w)) =
       sent w @ [req\<lparr>Header := Header_Set (Header req) ''Accept'' ''text/plain''\<rparr>]"
    then obtain req where r: "x = Inr req"
      "sent (snd (ExportBindZone rt ctx domainID w)) =
       sent w @ [req\<lparr>Header := Header_Set (Header req) ''Accept'' ''text/plain''\<rparr>]"
      by blast
    from h(4)[OF r(1)] r(2) show ?thesis
      unfolding sends_authorized_def
      by (intro exI[of _ "[req\<lparr>Header := Header_Set (Header req) ''Accept'' ''text/plain''\<rparr>]"])
         (simp add: Header_Set_def)
  qed
  show "client (snd (ExportBindZone rt ctx domainID w)) = client w"
    using h(2,3) unfolding ExportBindZone_def h(1)
    by (auto simp: Let_def split: option.splits sum.splits)
qed

lemmas op_defs = ListDomains_def CreateDomain_def DeleteDomain_def CheckNameserver_def
  ListDomainRecords_def CreateRecord_def UpdateRecord_def DeleteRecord_def RotateAPIKey_def
  ListRecords_def zone_CreateRecord_def zone_UpdateRecord_def zone_DeleteRecord_def

lemmas frame_simps = send_decode_newRequest send_only_newRequest sends_authorized_refl
  ImportBindZone_frame ExportBindZone_frame

subsection \<open>Headers of a request\<close>

lemma apply_options_apiKey:
  "apply_options opts c = Inr c' \<Longrightarrow>
   (\<And>opt x. Some opt \<in> set opts \<Longrightarrow> apiKey (fst (opt x)) = apiKey x) \<Longrightarrow>
   apiKey c' = apiKey c"
proof (induction opts c rule: apply_options.induct)
  case (1 client)
  then show ?case by simp
next
  case (2 opts client)
  then show ?case by simp
next
  case (3 opt opts client)
  obtain c1 r where oc: "opt client = (c1, r)" by (cases "opt client")
  with 3(2) have r: "r = None" and rest: "apply_options opts c1 = Inr c'"
    by (auto split: option.splits)
  have "apiKey c' = apiKey c1"
    using 3(1)[OF oc[symmetric] r rest] 3(3) by simp
  moreover have "apiKey c1 = apiKey client"
    using 3(3)[of opt client] oc by simp
  ultimately show ?case by simp
qed

text \<open>
  C6. Every request that \<open>newRequest\<close> builds carries the header
  \<^verbatim>\<open>Authorization: Bearer <credential>\<close>, with the credential of the client;
  \<^verbatim>\<open>Content-Type\<close> is \<^verbatim>\<open>application/json\<close> exactly when a body is given and absent
  otherwise; \<^verbatim>\<open>User-Agent\<close> is the configured user agent exactly when that is not
  empty and absent otherwise. Every request that a resource operation hands to the
  HTTP client carries the authorization header. The credential of a client that
  \<open>NewClient\<close> returns is the one given to it, if no option replaces it, and the options
  of the package do not.
\<close>

theorem newRequest_headers:
  "(newRequest marshal ctx meth path query body w = (Inr req, w') \<longrightarrow>
      Header req ''Authorization'' = Some [''Bearer '' @ apiKey (client w)]
    \<and> Header_Get (Header req) ''Authorization'' = ''Bearer '' @ apiKey (client w)
    \<and> (Header req ''Content-Type'' = Some [''application/json''] \<longleftrightarrow> body \<noteq> None)
    \<and> (Header req ''Content-Type'' = None \<longleftrightarrow> body = None)
    \<and> (Header req ''User-Agent'' = Some [userAgent (client w)] \<longleftrightarrow> userAgent (client w) \<noteq> [])
    \<and> (Header req ''User-Agent'' = None \<longleftrightarrow> userAgent (client w) = []))
   \<and> sends_authorized w (snd (ListDomains rt u1 ctx w))
   \<and> sends_authorized w (snd (CreateDomain rt m2 u2 ctx name w))
   \<and> sends_authorized w (snd (DeleteDomain rt ctx domainID w))
   \<and> sends_authorized w (snd (CheckNameserver rt u3 ctx domainID w))
   \<and> sends_authorized w (snd (ListDomainRecords rt u4 ctx domainID w))
   \<and> sends_authorized w (snd (CreateRecord rt m5 u5 ctx payload w))
   \<and> sends_authorized w (snd (UpdateRecord rt m6 u6 ctx recordID upayload w))
   \<and> sends_authorized w (snd (DeleteRecord rt ctx recordID w))
   \<and> sends_authorized w (snd (ExportBindZone rt ctx domainID w))
   \<and> sends_authorized w (snd (ImportBindZone rt u7 ctx zoneData contentType w))
   \<and> sends_authorized w (snd (RotateAPIKey rt u8 ctx w))
   \<and> sends_authorized w (snd (ListRecords rt u9 ctx zone opts w))
   \<and> sends_authorized w (snd (zone_CreateRecord rt m10 u10 ctx zone zpayload w))
   \<and> sends_authorized w (snd (zone_UpdateRecord rt m11 u11 ctx zone recordID zupayload w))
   \<and> sends_authorized w (snd (zone_DeleteRecord rt ctx zone recordID w))
   \<and> (NewClient key options = Inr c \<and>
        (\<forall>opt x. Some opt \<in> set options \<longrightarrow> apiKey (fst (opt x)) = apiKey x)
        \<longrightarrow> apiKey c = key)
   \<and> apiKey (fst (WithBaseURL rawURL x)) = apiKey x
   \<and> apiKey (fst (WithHTTPClient hc x)) = apiKey x
   \<and> apiKey (fst (WithUserAgent ua x)) = apiKey x"
proof -
  have headers: "newRequest marshal ctx meth path query body w = (Inr req, w') \<longrightarrow>
      Header req ''Authorization'' = Some [''Bearer '' @ apiKey (client w)]
    \<and> Header_Get (Header req) ''Authorization'' = ''Bearer '' @ apiKey (client w)
    \<and> (Header req ''Content-Type'' = Some [''application/json''] \<longleftrightarrow> body \<noteq> None)
    \<and> (Header req ''Content-Type'' = None \<longleftrightarrow> body = None)
    \<and> (Header req ''User-Agent'' = Some [userAgent (client w)] \<longleftrightarrow> userAgent (client w) \<noteq> [])
    \<and> (Header req ''User-Agent'' = None \<longleftrightarrow> userAgent (client w) = [])"
  proof
    assume n: "newRequest marshal ctx meth path query body w = (Inr req, w')"
    from newRequest_Inr(2,4,5)[OF n]
    show "Header req ''Authorization'' = Some [''Bearer '' @ apiKey (client w)]
      \<and> Header_Get (Header req) ''Authorization'' = ''Bearer '' @ apiKey (client w)
      \<and> (Header req ''Content-Type'' = Some [''application/json''] \<longleftrightarrow> body \<noteq> None)
      \<and> (Header req ''Content-Type'' = None \<longleftrightarrow> body = None)
      \<and> (Header req ''User-Agent'' = Some [userAgent (client w)] \<longleftrightarrow> userAgent (client w) \<noteq> [])
      \<and> (Header req ''User-Agent'' = None \<longleftrightarrow> userAgent (client w) = [])"
      by (simp add: Header_Get_def)
  qed
  have key: "NewClient key options = Inr c \<and>
        (\<forall>opt x. Some opt \<in> set options \<longrightarrow> apiKey (fst (opt x)) = apiKey x)
        \<longrightarrow> apiKey c = key"
  proof
    assume h: "NewClient key options = Inr c \<and>
        (\<forall>opt x. Some opt \<in> set options \<longrightarrow> apiKey (fst (opt x)) = apiKey x)"
    then obtain c0 where a: "apply_options options (defaultClient key) = Inr c0"
      and c: "apiKey c = apiKey c0"
      by (auto simp: NewClient_def url_Parse_defaultBaseURL defaultClient_def
          split: if_splits sum.splits)
    from apply_options_apiKey[OF a] h have "apiKey c0 = apiKey (defaultClient key)" by blast
    with c show "apiKey c = key" by (simp add: defaultClient_def)
  qed
  have opts: "apiKey (fst (WithBaseURL rawURL x)) = apiKey x"
    "apiKey (fst (WithHTTPClient hc x)) = apiKey x"
    "apiKey (fst (WithUserAgent ua x)) = apiKey x"
    by (simp_all add: WithBaseURL_def WithHTTPClient_def WithUserAgent_def split: sum.splits)
  have ops: "sends_authorized w (snd (ListDomains rt u1 ctx w))"
    "sends_authorized w (snd (CreateDomain rt m2 u2 ctx name w))"
    "sends_authorized w (snd (DeleteDomain rt ctx domainID w))"
    "sends_authorized w (snd (CheckNameserver rt u3 ctx domainID w))"
    "sends_authorized w (snd (ListDomainRecords rt u4 ctx domainID w))"
    "sends_authorized w (snd (CreateRecord rt m5 u5 ctx payload w))"
    "sends_authorized w (snd (UpdateRecord rt m6 u6 ctx recordID upayload w))"
    "sends_authorized w (snd (DeleteRecord rt ctx recordID w))"
    "sends_authorized w (snd (RotateAPIKey rt u8 ctx w))"
    "sends_authorized w (snd (ListRecords rt u9 ctx zone opts w))"
    "sends_authorized w (snd (zone_CreateRecord rt m10 u10 ctx zone zpayload w))"
    "sends_authorized w (snd (zone_UpdateRecord rt m11 u11 ctx zone recordID zupayload w))"
    "sends_authorized w (snd (zone_DeleteRecord rt ctx zone recordID w))"
    by (simp_all add: op_defs frame_simps Let_def split: option.splits)
  from headers key opts ops ExportBindZone_frame(1) ImportBindZone_frame(1)
  show ?thesis by blast
qed

theorem newRequest_headers_witness:
  "sent (snd (DeleteDomain (stub_server 200 []) (Some Background) ''domain-1'' test_world))
     = [test_request ''DELETE'' ''/api/client/domains/domain-1'' []]
   \<and> Header (test_request ''DELETE'' ''/api/client/domains/domain-1'' []) ''Authorization''
       = Some [''Bearer key'']
   \<and> Header (test_request ''DELETE'' ''/api/client/domains/domain-1'' []) ''Content-Type'' = None
   \<and> Header (test_request ''DELETE'' ''/api/client/domains/domain-1'' []) ''User-Agent''
       = Some [defaultUserAgent]"
proof -
  let ?r = "test_request ''DELETE'' ''/api/client/domains/domain-1'' []"
  have n: "newRequest no_payload (Some Background) ''DELETE'' ''/api/client/domains/domain-1''
      None (None::unit option) test_world = (Inr ?r, test_world\<lparr>built := [?r]\<rparr>)"
    by (rule newRequest_domain)
  have ua: "userAgent (client test_world) \<noteq> []"
    by (simp add: test_world_simps test_client_simps defaultUserAgent_def)
  from newRequest_headers[THEN conjunct1, rule_format, OF n] ua
  have "Header ?r ''Authorization'' = Some [''Bearer '' @ apiKey (client test_world)]"
    "Header ?r ''Content-Type'' = None"
    "Header ?r ''User-Agent'' = Some [userAgent (client test_world)]"
    by simp_all
  then show ?thesis
    by (simp add: DeleteDomain_ok test_world_simps test_client_simps)
qed

subsection \<open>The configuration after construction\<close>

text \<open>
  C9. No call changes the client: the client in the state after \<open>newRequest\<close>, after
  \<open>do\<close> and after every resource operation is the client in the state before it,
  field by field.
\<close>

theorem client_unchanged:
  "client (snd (newRequest marshal ctx meth path query body w)) = client w
   \<and> client (snd (do rt unmarshal req out w)) = client w
   \<and> client (snd (ListDomains rt u1 ctx w)) = client w
   \<and> client (snd (CreateDomain rt m2 u2 ctx name w)) = client w
   \<and> client (snd (DeleteDomain rt ctx domainID w)) = client w
   \<and> client (snd (CheckNameserver rt u3 ctx domainID w)) = client w
   \<and> client (snd (ListDomainRecords rt u4 ctx domainID w)) = client w
   \<and> client (snd (CreateRecord rt m5 u5 ctx payload w)) = client w
   \<and> client (snd (UpdateRecord rt m6 u6 ctx recordID upayload w)) = client w
   \<and> client (snd (DeleteRecord rt ctx recordID w)) = client w
   \<and> client (snd (ExportBindZone rt ctx domainID w)) = client w
   \<and> client (snd (ImportBindZone rt u7 ctx zoneData contentType w)) = client w
   \<and> client (snd (RotateAPIKey rt u8 ctx w)) = client w
   \<and> client (snd (ListRecords rt u9 ctx zone opts w)) = client w
   \<and> client (snd (zone_CreateRecord rt m10 u10 ctx zone zpayload w)) = client w
   \<and> client (snd (zone_UpdateRecord rt m11 u11 ctx zone recordID zupayload w)) = client w
   \<and> client (snd (zone_DeleteRecord rt ctx zone recordID w)) = client w"
proof -
  have n: "client (snd (newRequest marshal ctx meth path query body w)) = client w"
    using newRequest_frame[of marshal ctx meth path query body w] by auto
  have d: "client (snd (do rt unmarshal req out w)) = client w"
    using do_frame(1)[of rt unmarshal req out w] by (cases "do rt unmarshal req out w") simp
  have ops: "client (snd (ListDomains rt u1 ctx w)) = client w"
    "client (snd (CreateDomain rt m2 u2 ctx name w)) = client w"
    "client (snd (DeleteDomain rt ctx domainID w)) = client w"
    "client (snd (CheckNameserver rt u3 ctx domainID w)) = client w"
    "client (snd (ListDomainRecords rt u4 ctx domainID w)) = client w"
    "client (snd (CreateRecord rt m5 u5 ctx payload w)) = client w"
    "client (snd (UpdateRecord rt m6 u6 ctx recordID upayload w)) = client w"
    "client (snd (DeleteRecord rt ctx recordID w)) = client w"
    "client (snd (RotateAPIKey rt u8 ctx w)) = client w"
    "client (snd (ListRecords rt u9 ctx zone opts w)) = client w"
    "client (snd (zone_CreateRecord rt m10 u10 ctx zone zpayload w)) = client w"
    "client (snd (zone_UpdateRecord rt m11 u11 ctx zone recordID zupayload w)) = client w"
    "client (snd (zone_DeleteRecord rt ctx zone recordID w)) = client w"
    by (simp_all add: op_defs frame_simps Let_def split: option.splits)
  from n d ops ExportBindZone_frame(2) ImportBindZone_frame(2) show ?thesis by blast
qed

theorem client_unchanged_witness:
  "client (snd (DeleteDomain (stub_server 200 []) (Some Background) ''domain-1'' test_world))
     = test_client
   \<and> sent (snd (DeleteDomain (stub_server 200 []) (Some Background) ''domain-1'' test_world))
       \<noteq> sent test_world"
proof -
  have "client (snd (DeleteDomain (stub_server 200 []) (Some Background) ''domain-1'' test_world))
     = client test_world"
    by (rule client_unchanged[where ctx = "Some Background" and rt = "stub_server 200 []"
        and domainID = "''domain-1''" and w = test_world,
        THEN conjunct2, THEN conjunct2, THEN conjunct2, THEN conjunct2, THEN conjunct1])
  then show ?thesis by (simp add: test_world_simps DeleteDomain_ok)
qed

subsection \<open>Validation before any request\<close>

text \<open>
  C4. When a required identifier or a required string field is blank after trimming,
  the operation returns a local error that names the input, and the state is left as
  it was: no request has been built and none has been sent. This holds for
  \<open>DeleteDomain\<close>, \<open>CheckNameserver\<close>, \<open>ListDomainRecords\<close>, \<open>ExportBindZone\<close>,
  \<open>CreateDomain\<close>, \<open>CreateRecord\<close>, \<open>UpdateRecord\<close>, \<open>DeleteRecord\<close> and for the
  zone-scoped \<open>ListRecords\<close>, \<open>CreateRecord\<close>, \<open>UpdateRecord\<close> and \<open>DeleteRecord\<close>.
\<close>

theorem blank_input_fails_locally:
  "(TrimSpace domainID = [] \<longrightarrow>
      DeleteDomain rt ctx domainID w
        = (Some (ErrorString ''enzonix: domain id must not be empty''), w)
    \<and> CheckNameserver rt u1 ctx domainID w
        = (Inl (ErrorString ''enzonix: domain id must not be empty''), w)
    \<and> ListDomainRecords rt u2 ctx domainID w
        = (Inl (ErrorString ''enzonix: domain id must not be empty''), w)
    \<and> ExportBindZone rt ctx domainID w
        = (([], Some (ErrorString ''enzonix: domain id must not be empty'')), w))
   \<and> (TrimSpace name = [] \<longrightarrow>
      CreateDomain rt m3 u3 ctx name w
        = (Inl (ErrorString ''enzonix: domain name must not be empty''), w))
   \<and> (TrimSpace (cr_DomainID payload) = [] \<longrightarrow>
      CreateRecord rt m4 u4 ctx payload w
        = (Inl (ErrorString ''enzonix: domain id must not be empty''), w))
   \<and> (TrimSpace (cr_DomainID payload) \<noteq> [] \<and> TrimSpace (cr_Name payload) = [] \<longrightarrow>
      CreateRecord rt m4 u4 ctx payload w
        = (Inl (ErrorString ''enzonix: record name must not be empty''), w))
   \<and> (TrimSpace (cr_DomainID payload) \<noteq> [] \<and> TrimSpace (cr_Name payload) \<noteq> []
        \<and> TrimSpace (cr_Type payload) = [] \<longrightarrow>
      CreateRecord rt m4 u4 ctx payload w
        = (Inl (ErrorString ''enzonix: record type must not be empty''), w))
   \<and> (TrimSpace (cr_DomainID payload) \<noteq> [] \<and> TrimSpace (cr_Name payload) \<noteq> []
        \<and> TrimSpace (cr_Type payload) \<noteq> [] \<and> TrimSpace (cr_Value payload) = [] \<longrightarrow>
      CreateRecord rt m4 u4 ctx payload w
        = (Inl (ErrorString ''enzonix: record value must not be empty''), w))
   \<and> (TrimSpace recordID = [] \<longrightarrow>
      UpdateRecord rt m5 u5 ctx recordID upayload w
        = (Inl (ErrorString ''enzonix: record id must not be empty''), w)
    \<and> DeleteRecord rt ctx recordID w
        = (Some (ErrorString ''enzonix: record id must not be empty''), w))
   \<and> (TrimSpace zone = [] \<longrightarrow>
      ListRecords rt u6 ctx zone opts w
        = (Inl (ErrorString ''enzonix: zone must not be empty''), w)
    \<and> zone_CreateRecord rt m7 u7 ctx zone zpayload w
        = (Inl (ErrorString ''enzonix: zone must not be empty''), w)
    \<and> zone_UpdateRecord rt m8 u8 ctx zone recordID zupayload w
        = (Inl (ErrorString ''enzonix: zone must not be empty''), w)
    \<and> zone_DeleteRecord rt ctx zone recordID w
        = (Some (ErrorString ''enzonix: zone must not be empty''), w))
   \<and> (TrimSpace zone \<noteq> [] \<and> TrimSpace recordID = [] \<longrightarrow>
      zone_UpdateRecord rt m8 u8 ctx zone recordID zupayload w
        = (Inl (ErrorString ''enzonix: record id must not be empty''), w)
    \<and> zone_DeleteRecord rt ctx zone recordID w
        = (Some (ErrorString ''enzonix: record id must not be empty''), w))
   \<and> (TrimSpace zone \<noteq> [] \<and> TrimSpace (zc_Name zpayload) = [] \<longrightarrow>
      zone_CreateRecord rt m7 u7 ctx zone zpayload w
        = (Inl (ErrorString ''enzonix: record name must not be empty''), w))
   \<and> (TrimSpace zone \<noteq> [] \<and> TrimSpace (zc_Name zpayload) \<noteq> []
        \<and> TrimSpace (zc_Type zpayload) = [] \<longrightarrow>
      zone_CreateRecord rt m7 u7 ctx zone zpayload w
        = (Inl (ErrorString ''enzonix: record type must not be empty''), w))
   \<and> (TrimSpace zone \<noteq> [] \<and> TrimSpace (zc_Name zpayload) \<noteq> []
        \<and> TrimSpace (zc_Type zpayload) \<noteq> [] \<and> TrimSpace (zc_Content zpayload) = [] \<longrightarrow>
      zone_CreateRecord rt m7 u7 ctx zone zpayload w
        = (Inl (ErrorString ''enzonix: record content must not be empty''), w))"
  by (simp add: op_defs ExportBindZone_def requireID_def requireZone_def Let_def)

theorem blank_input_fails_locally_witness:
  "DeleteDomain (stub_server 200 []) (Some Background) ''   '' test_world
     = (Some (ErrorString ''enzonix: domain id must not be empty''), test_world)
   \<and> ListRecords (stub_server 200 []) (\<lambda>b v. (v, None)) (Some Background) [] None test_world
     = (Inl (ErrorString ''enzonix: zone must not be empty''), test_world)"
proof -
  have h: "TrimSpace ''   '' = []" "TrimSpace [] = []"
    by (simp_all add: TrimSpace_examples)
  from blank_input_fails_locally[where domainID = "''   ''" and rt = "stub_server 200 []"
      and ctx = "Some Background" and w = test_world, THEN conjunct1, rule_format, OF h(1)]
  have a: "DeleteDomain (stub_server 200 []) (Some Background) ''   '' test_world
     = (Some (ErrorString ''enzonix: domain id must not be empty''), test_world)"
    by (rule conjunct1)
  from blank_input_fails_locally[where zone = "[]" and rt = "stub_server 200 []"
      and ctx = "Some Background" and w = test_world and opts = None
      and ?u6.0 = "\<lambda>b v. (v, None)", THEN conjunct2,
      THEN conjunct2, THEN conjunct2, THEN conjunct2, THEN conjunct2, THEN conjunct2,
      THEN conjunct2, THEN conjunct1, rule_format, OF h(2)]
  have b: "ListRecords (stub_server 200 []) (\<lambda>b v. (v, None)) (Some Background) [] None
      test_world = (Inl (ErrorString ''enzonix: zone must not be empty''), test_world)"
    by (rule conjunct1)
  from a b show ?thesis by (rule conjI)
qed

subsection \<open>Zone names in paths\<close>

lemma dot_not_space:
  "\<not> asciiSpace (CHR ''.'')" "\<not> space2 a (CHR ''.'')" "\<not> space3 a b (CHR ''.'')"
  by (simp_all add: char_defs)

lemma TrimLeftSpace_append_dot: "TrimLeftSpace (z @ ''.'') = TrimLeftSpace z @ ''.''"
  by (induction z rule: TrimLeftSpace.induct) (simp_all add: dot_not_space)

lemma TrimRightSpace_rev_dot: "TrimRightSpace_rev (CHR ''.'' # s) = CHR ''.'' # s"
proof (cases s)
  case Nil
  then show ?thesis by (simp add: dot_not_space)
next
  case (Cons b s')
  then show ?thesis by (cases s') (simp_all add: dot_not_space)
qed

lemma TrimSpace_append_dot: "TrimSpace (z @ ''.'') = TrimLeftSpace z @ ''.''"
  by (simp add: TrimSpace_def TrimRightSpace_def TrimLeftSpace_append_dot TrimRightSpace_rev_dot)

lemma TrimLeftSpace_suffix: "\<exists>p. z = p @ TrimLeftSpace z"
proof (induction z rule: TrimLeftSpace.induct)
  case 1
  then show ?case by simp
next
  case (2 a)
  then show ?case by simp
next
  case (3 a b)
  show ?case
  proof (cases "asciiSpace a")
    case True
    with 3 obtain p where "[b] = p @ TrimLeftSpace [b]" by blast
    then have "[a, b] = (a # p) @ TrimLeftSpace [b]" by simp
    with True show ?thesis by (metis TrimLeftSpace.simps(3))
  next
    case False
    then show ?thesis by simp
  qed
next
  case (4 a b c s)
  show ?case
  proof (cases "asciiSpace a")
    case True
    with 4 obtain p where "b # c # s = p @ TrimLeftSpace (b # c # s)" by blast
    then have "a # b # c # s = (a # p) @ TrimLeftSpace (b # c # s)" by simp
    with True show ?thesis by (metis TrimLeftSpace.simps(4))
  next
    case na: False
    show ?thesis
    proof (cases "space2 a b")
      case True
      with na 4 obtain p where "c # s = p @ TrimLeftSpace (c # s)" by blast
      then have "a # b # c # s = (a # b # p) @ TrimLeftSpace (c # s)" by simp
      with na True show ?thesis by (metis TrimLeftSpace.simps(4))
    next
      case n2: False
      show ?thesis
      proof (cases "space3 a b c")
        case True
        with na n2 4 obtain p where "s = p @ TrimLeftSpace s" by blast
        then have "a # b # c # s = (a # b # c # p) @ TrimLeftSpace s" by simp
        with na n2 True show ?thesis by (metis TrimLeftSpace.simps(4))
      next
        case False
        with na n2 show ?thesis by simp
      qed
    qed
  qed
qed

lemma TrimRightSpace_rev_length: "length (TrimRightSpace_rev s) \<le> length s"
  by (induction s rule: TrimRightSpace_rev.induct) auto

lemma TrimSpace_fixed:
  assumes "TrimSpace z = z"
  shows "TrimLeftSpace z = z" and "TrimRightSpace z = z"
proof -
  obtain p where p: "z = p @ TrimLeftSpace z" using TrimLeftSpace_suffix by blast
  have "length z = length (TrimRightSpace_rev (rev (TrimLeftSpace z)))"
    using assms by (metis TrimSpace_def TrimRightSpace_def length_rev)
  also have "\<dots> \<le> length (TrimLeftSpace z)"
    using TrimRightSpace_rev_length[of "rev (TrimLeftSpace z)"] by simp
  finally have "length z \<le> length (TrimLeftSpace z)" .
  moreover from p have "length z = length p + length (TrimLeftSpace z)"
    by (metis length_append)
  ultimately have "p = []" by simp
  with p show l: "TrimLeftSpace z = z" by simp
  with assms show "TrimRightSpace z = z" by (simp add: TrimSpace_def)
qed

lemma trimZone_append_dot: "trimZone (z @ ''.'') = TrimLeftSpace z"
  by (simp add: trimZone_def TrimSpace_append_dot TrimSuffix_def HasSuffix_def)

lemma trimZone_clean:
  assumes "TrimSpace z = z" and "\<not> HasSuffix z ''.''"
  shows "trimZone (z @ ''.'') = trimZone z"
proof -
  have "trimZone (z @ ''.'') = z"
    using TrimSpace_fixed(1)[OF assms(1)] by (simp only: trimZone_append_dot)
  moreover have "trimZone z = z"
    using assms by (simp add: trimZone_def TrimSuffix_def)
  ultimately show ?thesis by simp
qed

text \<open>
  C7, as the code has it. One trailing dot is stripped, after white space has been
  trimmed: the zone \<open>z\<close> followed by a dot gives the path of \<open>z\<close> without its leading
  white space. So for a zone name without surrounding white space that does not end in
  a dot, the name with one trailing dot gives the same path and the zone-scoped
  operations the same call as the name itself.
\<close>

theorem zone_path_strips_one_dot:
  "trimZone (z @ ''.'') = TrimLeftSpace z
   \<and> zoneRecordsPath (z @ ''.'') = ''/zones/'' @ PathEscape (TrimLeftSpace z) @ ''/records''
   \<and> (TrimSpace z = z \<and> \<not> HasSuffix z ''.'' \<longrightarrow>
        zoneRecordsPath (z @ ''.'') = zoneRecordsPath z
      \<and> zoneRecordPath (z @ ''.'') recordID = zoneRecordPath z recordID)
   \<and> (TrimSpace z = z \<and> \<not> HasSuffix z ''.'' \<and> z \<noteq> [] \<longrightarrow>
        ListRecords rt u1 ctx (z @ ''.'') opts w = ListRecords rt u1 ctx z opts w
      \<and> zone_CreateRecord rt m2 u2 ctx (z @ ''.'') zpayload w
          = zone_CreateRecord rt m2 u2 ctx z zpayload w
      \<and> zone_UpdateRecord rt m3 u3 ctx (z @ ''.'') recordID zupayload w
          = zone_UpdateRecord rt m3 u3 ctx z recordID zupayload w
      \<and> zone_DeleteRecord rt ctx (z @ ''.'') recordID w = zone_DeleteRecord rt ctx z recordID w)"
proof (intro conjI impI)
  show "trimZone (z @ ''.'') = TrimLeftSpace z" by (rule trimZone_append_dot)
  show "zoneRecordsPath (z @ ''.'') = ''/zones/'' @ PathEscape (TrimLeftSpace z) @ ''/records''"
    by (simp only: zoneRecordsPath_def trimZone_append_dot)
next
  assume h: "TrimSpace z = z \<and> \<not> HasSuffix z ''.''"
  then have t: "trimZone (z @ ''.'') = trimZone z" using trimZone_clean by blast
  show "zoneRecordsPath (z @ ''.'') = zoneRecordsPath z"
    by (simp only: zoneRecordsPath_def t)
  show "zoneRecordPath (z @ ''.'') recordID = zoneRecordPath z recordID"
    by (simp only: zoneRecordPath_def zoneRecordsPath_def t)
next
  assume h: "TrimSpace z = z \<and> \<not> HasSuffix z ''.'' \<and> z \<noteq> []"
  then have t: "trimZone (z @ ''.'') = trimZone z" using trimZone_clean by blast
  have p: "zoneRecordsPath (z @ ''.'') = zoneRecordsPath z"
    "zoneRecordPath (z @ ''.'') recordID = zoneRecordPath z recordID"
    by (simp_all only: zoneRecordPath_def zoneRecordsPath_def t)
  have r: "requireZone (z @ ''.'') = None" "requireZone z = None"
    using h by (simp_all add: requireZone_def TrimSpace_append_dot)
  show "ListRecords rt u1 ctx (z @ ''.'') opts w = ListRecords rt u1 ctx z opts w"
    by (simp only: ListRecords_def p r)
  show "zone_CreateRecord rt m2 u2 ctx (z @ ''.'') zpayload w
          = zone_CreateRecord rt m2 u2 ctx z zpayload w"
    by (simp only: zone_CreateRecord_def p r)
  show "zone_UpdateRecord rt m3 u3 ctx (z @ ''.'') recordID zupayload w
          = zone_UpdateRecord rt m3 u3 ctx z recordID zupayload w"
    by (simp only: zone_UpdateRecord_def p r)
  show "zone_DeleteRecord rt ctx (z @ ''.'') recordID w = zone_DeleteRecord rt ctx z recordID w"
    by (simp only: zone_DeleteRecord_def p r)
qed

lemma zone_example_simps:
  "TrimSpace ''example.com'' = ''example.com''" "\<not> HasSuffix ''example.com'' ''.''"
  "zoneRecordsPath ''example.com'' = ''/zones/example.com/records''"
  by (simp_all add: zoneRecordsPath_def trimZone_def PathEscape_def escape_def shouldEscape_def
      char_defs str_defs)

theorem zone_path_strips_one_dot_witness:
  "zoneRecordsPath ''example.com.'' = ''/zones/example.com/records''"
proof -
  have h: "TrimSpace ''example.com'' = ''example.com'' \<and> \<not> HasSuffix ''example.com'' ''.''"
    by (simp add: zone_example_simps)
  from zone_path_strips_one_dot[of "''example.com''", THEN conjunct2, THEN conjunct2,
      THEN conjunct1, rule_format, OF h]
  have "zoneRecordsPath (''example.com'' @ ''.'') = zoneRecordsPath ''example.com''"
    by (rule conjunct1)
  then show ?thesis by (simp add: zone_example_simps)
qed

text \<open>With two trailing dots only the last one is removed, and the path differs from
  that of the bare name.\<close>

theorem zone_path_two_dots_counterexample:
  "zoneRecordsPath ''example.com..'' \<noteq> zoneRecordsPath ''example.com''"
  by (simp add: zoneRecordsPath_def trimZone_def PathEscape_def escape_def shouldEscape_def
      char_defs str_defs)

subsection \<open>Raw export\<close>

lemma url_Parse_export_path:
  "url_Parse ''/api/client/domains/domain-1/export/bind''
     = Inr (path_URL ''/api/client/domains/domain-1/export/bind'')"
  by (simp add: path_URL_def char_defs str_defs url_defs)

lemma Resolve_export_path:
  "ResolveReference (https_URL ''example.test'' ''/api'' [])
      (path_URL ''/api/client/domains/domain-1/export/bind'')
    = https_URL ''example.test'' ''/api/client/domains/domain-1/export/bind'' []"
  by (simp add: https_URL_def path_URL_def resolve_defs char_defs str_defs)

lemma String_export_path:
  "URL_String (https_URL ''example.test'' ''/api/client/domains/domain-1/export/bind'' [])
    = ''https://example.test/api/client/domains/domain-1/export/bind''"
  by (simp add: https_URL_def url_string_defs char_defs str_defs)

lemma url_Parse_export_url:
  "url_Parse ''https://example.test/api/client/domains/domain-1/export/bind'' =
    Inr (https_URL ''example.test'' ''/api/client/domains/domain-1/export/bind'' [])"
  by (simp add: https_URL_def char_defs str_defs url_defs)

lemma newRequest_export:
  "newRequest no_payload (Some Background) ''GET'' ''/api/client/domains/domain-1/export/bind''
      None (None::unit option) test_world
    = (Inr (test_request ''GET'' ''/api/client/domains/domain-1/export/bind'' []),
       test_world\<lparr>built := [test_request ''GET'' ''/api/client/domains/domain-1/export/bind'' []]\<rparr>)"
  by (rule newRequest_test_world)
     (simp_all add: url_Parse_export_path Resolve_export_path String_export_path
        url_Parse_export_url validMethod_simps)

text \<open>
  C8. On a status below 400 \<open>ExportBindZone\<close> returns what reading the body gives, at
  most the first 4 MiB of it, whatever the bytes are: no decoder takes part (the
  function has none), and the read error comes with the bytes when the body fails
  before the cap. \<open>do\<close> hands at most the first 1 MiB of the body to the decoder.
\<close>

theorem ExportBindZone_raw_bytes:
  "(TrimSpace domainID \<noteq> [] \<and>
    newRequest no_payload ctx ''GET''
      (clientAPIPrefix @ ''/domains/'' @ PathEscape domainID @ ''/export/bind'') None
      (None::unit option) w = (Inr req0, w1) \<and>
    httpClient (client w) = Some hc \<and>
    rt hc (req0\<lparr>Header := Header_Set (Header req0) ''Accept'' ''text/plain''\<rparr>) = Inr res \<and>
    Response_StatusCode res < 400 \<longrightarrow>
      fst (ExportBindZone rt ctx domainID w) =
        (take (4 * 2 ^ 20) (content (Response_Body res)),
         if length (content (Response_Body res)) < 4 * 2 ^ 20
         then failure (Response_Body res) else None))
   \<and> (httpClient (client w) = Some hc \<and> rt hc req = Inr res \<and> Response_StatusCode res < 400 \<and>
      ReadAll_Limit (Response_Body res) (2 ^ 20) = (body, None) \<and> body \<noteq> [] \<longrightarrow>
        body = take (2 ^ 20) (content (Response_Body res)) \<and>
        fst (do rt unmarshal req (Some v) w) =
          (case unmarshal body v of
             (v', Some err) \<Rightarrow> (Some (WrapError ''enzonix: decode response: '' err), Some v')
           | (v', None) \<Rightarrow> (None, Some v')))
   \<and> 4 * 2 ^ 20 = (4194304::nat) \<and> 2 ^ 20 = (1048576::nat)"
proof (intro conjI impI)
  assume h: "TrimSpace domainID \<noteq> [] \<and>
    newRequest no_payload ctx ''GET''
      (clientAPIPrefix @ ''/domains/'' @ PathEscape domainID @ ''/export/bind'') None
      (None::unit option) w = (Inr req0, w1) \<and>
    httpClient (client w) = Some hc \<and>
    rt hc (req0\<lparr>Header := Header_Set (Header req0) ''Accept'' ''text/plain''\<rparr>) = Inr res \<and>
    Response_StatusCode res < 400"
  then have n: "newRequest no_payload ctx ''GET''
      (clientAPIPrefix @ ''/domains/'' @ PathEscape domainID @ ''/export/bind'') None
      (None::unit option) w = (Inr req0, w1)"
    by blast
  from newRequest_Inr(1)[OF n] h have c: "httpClient (client w1) = Some hc" by simp
  show "fst (ExportBindZone rt ctx domainID w) =
        (take (4 * 2 ^ 20) (content (Response_Body res)),
         if length (content (Response_Body res)) < 4 * 2 ^ 20
         then failure (Response_Body res) else None)"
    using h c unfolding ExportBindZone_def n
    by (simp add: requireID_def Let_def ReadAll_Limit_def)
next
  assume h: "httpClient (client w) = Some hc \<and> rt hc req = Inr res \<and>
      Response_StatusCode res < 400 \<and>
      ReadAll_Limit (Response_Body res) (2 ^ 20) = (body, None) \<and> body \<noteq> []"
  then show "body = take (2 ^ 20) (content (Response_Body res))"
    by (auto simp: ReadAll_Limit_def)
  from h show "fst (do rt unmarshal req (Some v) w) =
          (case unmarshal body v of
             (v', Some err) \<Rightarrow> (Some (WrapError ''enzonix: decode response: '' err), Some v')
           | (v', None) \<Rightarrow> (None, Some v'))"
    by (simp add: do_def Let_def split: prod.splits option.splits)
qed simp_all

theorem ExportBindZone_raw_bytes_witness:
  "fst (ExportBindZone (stub_server 200 (''$ORIGIN example.com.'' @ [CHR 0x0A]))
          (Some Background) ''domain-1'' test_world)
     = (''$ORIGIN example.com.'' @ [CHR 0x0A], None)"
proof -
  let ?body = "''$ORIGIN example.com.'' @ [CHR 0x0A]"
  let ?r = "test_request ''GET'' ''/api/client/domains/domain-1/export/bind'' []"
  let ?res = "\<lparr>Response_StatusCode = 200, Response_Body = \<lparr>content = ?body, failure = None\<rparr>\<rparr>"
  have h: "TrimSpace ''domain-1'' \<noteq> [] \<and>
    newRequest no_payload (Some Background) ''GET''
      (clientAPIPrefix @ ''/domains/'' @ PathEscape ''domain-1'' @ ''/export/bind'') None
      (None::unit option) test_world = (Inr ?r, test_world\<lparr>built := [?r]\<rparr>) \<and>
    httpClient (client test_world) = Some \<lparr>Timeout = defaultTimeout\<rparr> \<and>
    stub_server 200 ?body \<lparr>Timeout = defaultTimeout\<rparr>
      (?r\<lparr>Header := Header_Set (Header ?r) ''Accept'' ''text/plain''\<rparr>) = Inr ?res \<and>
    Response_StatusCode ?res < 400"
    by (simp add: domain1_simps clientAPIPrefix_def newRequest_export test_world_simps
        test_client_simps stub_server_def)
  from ExportBindZone_raw_bytes[where domainID = "''domain-1''" and ctx = "Some Background"
      and w = test_world and ?req0.0 = ?r and ?w1.0 = "test_world\<lparr>built := [?r]\<rparr>"
      and hc = "\<lparr>Timeout = defaultTimeout\<rparr>" and rt = "stub_server 200 ?body" and res = ?res,
      THEN conjunct1, rule_format, OF h]
  show ?thesis by simp
qed

subsection \<open>The URL of a request\<close>







subsection \<open>Resolution of paths\<close>

lemma IndexByte_None: "(IndexByte s c = None) = (c \<notin> set s)"
  by (induction s) auto



lemma LastIndexByte_None: "(LastIndexByte s c = None) = (c \<notin> set s)"
  by (simp add: LastIndexByte_def IndexByte_None)





lemma splitSlash_not_Nil: "splitSlash acc s \<noteq> []"
  by (induction s arbitrary: acc) simp_all



lemma concat_splitSlash:
  "concat (map (\<lambda>e. CHR ''/'' # e) (splitSlash acc s)) = CHR ''/'' # rev acc @ s"
  by (induction s arbitrary: acc) simp_all




lemma resolvePath_Nil:
  "resolvePath [] full =
     (if full = [] then []
      else (let dst = fst (foldl resolve_step (''/'', True) (splitSlash [] full));
                r = (if last (splitSlash [] full) = ''.'' \<or> last (splitSlash [] full) = ''..''
                     then dst @ ''/'' else dst)
            in if length r > 1 \<and> r ! 1 = CHR ''/'' then drop 1 r else r))"
proof -
  have f: "(if full = [] then []
            else if hd full \<noteq> CHR ''/'' then
              (case LastIndexByte [] (CHR ''/'') of
                 None \<Rightarrow> full
               | Some i \<Rightarrow> take (Suc i) [] @ full)
            else full) = full"
    by (simp add: LastIndexByte_def)
  show ?thesis
    unfolding resolvePath_def f by (simp only: Let_def)
qed

lemma resolvePath_full:
  "resolvePath base ref =
     resolvePath [] (if ref = [] then base
                     else if hd ref \<noteq> CHR ''/'' then
                       (case LastIndexByte base (CHR ''/'') of
                          None \<Rightarrow> ref
                        | Some i \<Rightarrow> take (Suc i) base @ ref)
                     else ref)"
  unfolding resolvePath_Nil unfolding resolvePath_def by (simp only: Let_def)




lemma foldl_resolve_step_clean:
  "\<forall>e\<in>set es. e \<noteq> ''.'' \<and> e \<noteq> ''..''
    \<Longrightarrow> foldl resolve_step (dst, False) es = (dst @ concat (map (\<lambda>e. CHR ''/'' # e) es), False)"
  by (induction es arbitrary: dst) (simp_all add: resolve_step_def)

lemma foldl_resolve_step_rooted:
  assumes "rooted p" and "dot_free p"
  shows "foldl resolve_step (''/'', True) (splitSlash [] p) = (CHR ''/'' # p, False)"
proof (cases p)
  case Nil
  then show ?thesis by (simp add: resolve_step_def)
next
  case (Cons c t)
  with assms(1) have p: "p = CHR ''/'' # t" by (simp add: rooted_def)
  from assms(2) p have "\<forall>e\<in>set (splitSlash [] t). e \<noteq> ''.'' \<and> e \<noteq> ''..''"
    by (auto simp: dot_free_def)
  from foldl_resolve_step_clean[OF this, of "''/''"] p show ?thesis
    by (simp add: resolve_step_def concat_splitSlash)
qed


lemma last_splitSlash_dot_free:
  "dot_free q \<Longrightarrow> last (splitSlash [] q) \<noteq> ''.'' \<and> last (splitSlash [] q) \<noteq> ''..''"
  using last_in_set[OF splitSlash_not_Nil[of "[]" q]] by (auto simp: dot_free_def)

lemma resolvePath_rooted:
  assumes "rooted p" and "dot_free p"
  shows "resolvePath [] p = p"
proof (cases p)
  case Nil
  then show ?thesis by (simp add: resolvePath_def)
next
  case (Cons c t)
  with assms(1) have p: "p = CHR ''/'' # t" by (simp add: rooted_def)
  have "fst (foldl resolve_step (''/'', True) (splitSlash [] p)) = CHR ''/'' # p"
    by (simp add: foldl_resolve_step_rooted[OF assms])
  with last_splitSlash_dot_free[OF assms(2)] p
  show ?thesis by (simp add: resolvePath_Nil Let_def del: splitSlash.simps)
qed


lemma resolvePath_empty:
  "rooted base \<Longrightarrow> dot_free base \<Longrightarrow> resolvePath base [] = base"
  using resolvePath_rooted[of base] unfolding resolvePath_full[of base "[]"] by simp







subsection \<open>Resolution of a path reference\<close>































subsection \<open>Errors of the API\<close>

lemmas scan_defs = checkValid_def scanner_reset_def scan_byte_def scanner_eof_def
  stateBeginValue_fn_def stateBeginValueOrEmpty_fn_def stateBeginString_fn_def
  stateBeginStringOrEmpty_fn_def stateEndValue_fn_def stateEndTop_fn_def state0_fn_def
  stateESign_fn_def expect_def pushParseState_def popParseState_def maxNestingDepth_def
  json_isSpace_def ishex_def

lemmas decode_defs = json_Unmarshal_def jtrim_def object_members_def decode_member_def
  unquoteBytes_def lookupField_def string_value_def saveError_def json_isSpace_def

text \<open>The decoder never writes the status: the field is tagged \<^verbatim>\<open>json:"-"\<close>.\<close>

lemma decode_member_StatusCode:
  "StatusCode (fst (decode_member st m)) = StatusCode (fst st)"
  by (cases st; cases m)
     (simp add: decode_member_def split: option.splits field.splits sum.splits)

lemma foldl_decode_member_StatusCode:
  "StatusCode (fst (foldl decode_member st ms)) = StatusCode (fst st)"
  by (induction ms arbitrary: st) (simp_all add: decode_member_StatusCode)

lemma json_Unmarshal_StatusCode: "StatusCode (fst (json_Unmarshal data v)) = StatusCode v"
  by (simp add: json_Unmarshal_def foldl_decode_member_StatusCode split: list.splits)

text \<open>A member sets the message or the code exactly when it gives the field a string.\<close>

lemma decode_member_Message:
  "Message (fst (decode_member st m)) =
     (case member_gives MessageField m of None \<Rightarrow> Message (fst st) | Some s \<Rightarrow> s)"
  by (cases st; cases m)
     (auto simp: decode_member_def member_gives_def
        split: option.splits field.splits sum.splits)

lemma decode_member_Code:
  "Code (fst (decode_member st m)) =
     (case member_gives CodeField m of None \<Rightarrow> Code (fst st) | Some s \<Rightarrow> s)"
  by (cases st; cases m)
     (auto simp: decode_member_def member_gives_def
        split: option.splits field.splits sum.splits)

lemma last_given_if:
  "last_given f ms =
     (if filter (\<lambda>x. x \<noteq> None) (map (member_gives f) ms) = [] then None
      else last (filter (\<lambda>x. x \<noteq> None) (map (member_gives f) ms)))"
  by (simp add: last_given_def split: list.splits)

lemma last_given_snoc:
  "last_given f (ms @ [m]) =
     (case member_gives f m of None \<Rightarrow> last_given f ms | Some s \<Rightarrow> Some s)"
  by (cases "member_gives f m") (simp_all add: last_given_if)

lemma foldl_decode_member_Message:
  "Message (fst (foldl decode_member st ms)) =
     (case last_given MessageField ms of None \<Rightarrow> Message (fst st) | Some s \<Rightarrow> s)"
proof (induction ms rule: rev_induct)
  case Nil
  then show ?case by (simp add: last_given_def)
next
  case (snoc m ms)
  then show ?case
    by (simp add: decode_member_Message last_given_snoc split: option.splits)
qed

lemma foldl_decode_member_Code:
  "Code (fst (foldl decode_member st ms)) =
     (case last_given CodeField ms of None \<Rightarrow> Code (fst st) | Some s \<Rightarrow> s)"
proof (induction ms rule: rev_induct)
  case Nil
  then show ?case by (simp add: last_given_def)
next
  case (snoc m ms)
  then show ?case
    by (simp add: decode_member_Code last_given_snoc split: option.splits)
qed

text \<open>For a body that is a JSON object, the decoded message and code are the fields of
  the object.\<close>

lemma json_Unmarshal_object:
  assumes "checkValid body" and "jtrim body = CHR ''{'' # cs"
  shows "Message (fst (json_Unmarshal body v)) =
           (case json_field body MessageField of None \<Rightarrow> Message v | Some s \<Rightarrow> s)"
    and "Code (fst (json_Unmarshal body v)) =
           (case json_field body CodeField of None \<Rightarrow> Code v | Some s \<Rightarrow> s)"
  using assms
  by (simp_all add: json_Unmarshal_def json_field_def foldl_decode_member_Message
      foldl_decode_member_Code split: option.splits)

text \<open>What \<open>do\<close> and \<open>parseAPIError\<close> return for a status of 400 or more, in terms of
  the body read.\<close>

lemma do_error_status:
  assumes "httpClient (client w) = Some hc" and "rt hc req = Inr res"
    and "400 \<le> Response_StatusCode res"
    and "ReadAll_Limit (Response_Body res) (2 ^ 20) = (body, None)"
  shows "fst (fst (do rt unmarshal req out w)) = Some (parseAPIError res)"
    and "parseAPIError res =
      API (if body = [] then newAPIError (Response_StatusCode res)
           else case json_Unmarshal body (newAPIError (Response_StatusCode res)) of
                  (e', Some err) \<Rightarrow> e'\<lparr>Message := TrimSpace body\<rparr>
                | (e', None) \<Rightarrow> e'\<lparr>Raw := body\<rparr>)"
  using assms
  by (simp_all add: do_def parseAPIError_def newAPIError_def Let_def split: prod.splits option.splits)

lemma parseAPIError_eq:
  "parseAPIError res =
     (let body = take (2 ^ 20) (content (Response_Body res)) in
      API (if body = [] then newAPIError (Response_StatusCode res)
           else case json_Unmarshal body (newAPIError (Response_StatusCode res)) of
                  (e', Some err) \<Rightarrow> e'\<lparr>Message := TrimSpace body\<rparr>
                | (e', None) \<Rightarrow> e'\<lparr>Raw := body\<rparr>))"
  by (simp add: parseAPIError_def newAPIError_def ReadAll_Limit_def Let_def
      split: prod.splits option.splits)

lemma json_Unmarshal_oops:
  "checkValid oops_body"
  "json_Unmarshal oops_body (newAPIError s)
     = (\<lparr>StatusCode = s, Message = ''oops'', Code = ''bad_request'', Raw = []\<rparr>, None)"
proof -
  show v: "checkValid oops_body"
    by (simp add: oops_body_def scan_defs char_defs)
  show "json_Unmarshal oops_body (newAPIError s)
     = (\<lparr>StatusCode = s, Message = ''oops'', Code = ''bad_request'', Raw = []\<rparr>, None)"
    using v by (simp add: oops_body_def newAPIError_def decode_defs char_defs splitTop.simps)
qed

lemma json_Unmarshal_not_found:
  "\<not> checkValid not_found_body"
  "json_Unmarshal not_found_body v = (v, Some SyntaxError)"
  "TrimSpace not_found_body = ''not found''"
proof -
  show v: "\<not> checkValid not_found_body"
    by (simp add: not_found_body_def scan_defs char_defs)
  then show "json_Unmarshal not_found_body v = (v, Some SyntaxError)"
    by (simp add: json_Unmarshal_def)
  show "TrimSpace not_found_body = ''not found''"
    by (simp add: not_found_body_def char_defs str_defs)
qed

lemma body_lengths:
  "take 1048576 oops_body = oops_body" "oops_body \<noteq> []" "length oops_body < 1048576"
  "take 1048576 not_found_body = not_found_body" "not_found_body \<noteq> []"
  "length not_found_body < 1048576"
  by (simp_all add: oops_body_def not_found_body_def)

text \<open>
  C1, as the code has it. When the body of a response with a status of 400 or more is
  read without error (at most its first 1 MiB), \<open>do\<close> returns the same error as
  \<open>parseAPIError\<close>, which ignores a read error: an \<^verbatim>\<open>APIError\<close> with the status of the
  response. With an empty body its message and code are empty. When the body decodes,
  message and code are the decoded ones, which for a JSON object are its \<^verbatim>\<open>message\<close>
  and \<^verbatim>\<open>code\<close> members (empty when absent); when decoding fails, the message is the
  trimmed text of the body.
\<close>

theorem APIError_of_error_response:
  "(httpClient (client w) = Some hc \<and> rt hc req = Inr res \<and> 400 \<le> Response_StatusCode res \<and>
    ReadAll_Limit (Response_Body res) (2 ^ 20) = (body, None) \<longrightarrow>
      fst (fst (do rt unmarshal req out w)) = Some (parseAPIError res))
   \<and> (body = take (2 ^ 20) (content (Response_Body res)) \<longrightarrow>
       (\<exists>e. parseAPIError res = API e \<and> StatusCode e = Response_StatusCode res
          \<and> (body = [] \<longrightarrow> Message e = [] \<and> Code e = [])
          \<and> (body \<noteq> [] \<and>
              snd (json_Unmarshal body (newAPIError (Response_StatusCode res))) = None \<longrightarrow>
                Message e = Message (fst (json_Unmarshal body (newAPIError (Response_StatusCode res))))
              \<and> Code e = Code (fst (json_Unmarshal body (newAPIError (Response_StatusCode res)))))
          \<and> (body \<noteq> [] \<and>
              snd (json_Unmarshal body (newAPIError (Response_StatusCode res))) = None \<and>
              (\<exists>cs. jtrim body = CHR ''{'' # cs) \<longrightarrow>
                Message e = (case json_field body MessageField of None \<Rightarrow> [] | Some s \<Rightarrow> s)
              \<and> Code e = (case json_field body CodeField of None \<Rightarrow> [] | Some s \<Rightarrow> s))
          \<and> (body \<noteq> [] \<and>
              snd (json_Unmarshal body (newAPIError (Response_StatusCode res))) \<noteq> None \<longrightarrow>
                Message e = TrimSpace body)))"
proof (intro conjI impI)
  assume "httpClient (client w) = Some hc \<and> rt hc req = Inr res \<and>
    400 \<le> Response_StatusCode res \<and>
    ReadAll_Limit (Response_Body res) (2 ^ 20) = (body, None)"
  then show "fst (fst (do rt unmarshal req out w)) = Some (parseAPIError res)"
    using do_error_status(1) by blast
next
  assume b: "body = take (2 ^ 20) (content (Response_Body res))"
  define e0 where "e0 = newAPIError (Response_StatusCode res)"
  define e where "e = (if body = [] then e0
           else case json_Unmarshal body e0 of
                  (e', Some err) \<Rightarrow> e'\<lparr>Message := TrimSpace body\<rparr>
                | (e', None) \<Rightarrow> e'\<lparr>Raw := body\<rparr>)"
  have p: "parseAPIError res = API e"
    unfolding e_def e0_def b by (simp add: parseAPIError_eq Let_def)
  have s: "StatusCode e = Response_StatusCode res"
    using json_Unmarshal_StatusCode[of body e0]
    by (cases "json_Unmarshal body e0")
       (auto simp: e_def e0_def newAPIError_def split: option.splits)
  have empty: "body = [] \<longrightarrow> Message e = [] \<and> Code e = []"
    by (simp add: e_def e0_def newAPIError_def)
  have ok: "body \<noteq> [] \<and> snd (json_Unmarshal body e0) = None \<longrightarrow>
      Message e = Message (fst (json_Unmarshal body e0))
    \<and> Code e = Code (fst (json_Unmarshal body e0))"
    by (cases "json_Unmarshal body e0") (auto simp: e_def)
  have obj: "body \<noteq> [] \<and> snd (json_Unmarshal body e0) = None \<and>
      (\<exists>cs. jtrim body = CHR ''{'' # cs) \<longrightarrow>
        Message e = (case json_field body MessageField of None \<Rightarrow> [] | Some s \<Rightarrow> s)
      \<and> Code e = (case json_field body CodeField of None \<Rightarrow> [] | Some s \<Rightarrow> s)"
  proof
    assume h: "body \<noteq> [] \<and> snd (json_Unmarshal body e0) = None \<and>
      (\<exists>cs. jtrim body = CHR ''{'' # cs)"
    then obtain cs where cs: "jtrim body = CHR ''{'' # cs" by blast
    from h have v: "checkValid body"
      by (auto simp: json_Unmarshal_def split: if_splits)
    have z: "Message e0 = []" "Code e0 = []"
      by (simp_all add: e0_def newAPIError_def)
    from json_Unmarshal_object[OF v cs, of e0] ok h
    show "Message e = (case json_field body MessageField of None \<Rightarrow> [] | Some s \<Rightarrow> s)
      \<and> Code e = (case json_field body CodeField of None \<Rightarrow> [] | Some s \<Rightarrow> s)"
      unfolding z by simp
  qed
  have bad: "body \<noteq> [] \<and> snd (json_Unmarshal body e0) \<noteq> None \<longrightarrow> Message e = TrimSpace body"
    by (cases "json_Unmarshal body e0") (auto simp: e_def)
  show "\<exists>e. parseAPIError res = API e \<and> StatusCode e = Response_StatusCode res
          \<and> (body = [] \<longrightarrow> Message e = [] \<and> Code e = [])
          \<and> (body \<noteq> [] \<and>
              snd (json_Unmarshal body (newAPIError (Response_StatusCode res))) = None \<longrightarrow>
                Message e = Message (fst (json_Unmarshal body (newAPIError (Response_StatusCode res))))
              \<and> Code e = Code (fst (json_Unmarshal body (newAPIError (Response_StatusCode res)))))
          \<and> (body \<noteq> [] \<and>
              snd (json_Unmarshal body (newAPIError (Response_StatusCode res))) = None \<and>
              (\<exists>cs. jtrim body = CHR ''{'' # cs) \<longrightarrow>
                Message e = (case json_field body MessageField of None \<Rightarrow> [] | Some s \<Rightarrow> s)
              \<and> Code e = (case json_field body CodeField of None \<Rightarrow> [] | Some s \<Rightarrow> s))
          \<and> (body \<noteq> [] \<and>
              snd (json_Unmarshal body (newAPIError (Response_StatusCode res))) \<noteq> None \<longrightarrow>
                Message e = TrimSpace body)"
    by (intro exI[of _ e] conjI)
       (rule p s empty ok[unfolded e0_def] obj[unfolded e0_def] bad[unfolded e0_def])+
qed

text \<open>The test \<^verbatim>\<open>TestDoHandlesHTTPError\<close>: status 400 with the JSON body gives the
  message \<^verbatim>\<open>oops\<close> and the code \<^verbatim>\<open>bad_request\<close>.\<close>

theorem APIError_of_error_response_witness:
  "fst (DeleteDomain (stub_server 400 oops_body) (Some Background) ''domain-1'' test_world)
     = Some (API \<lparr>StatusCode = 400, Message = ''oops'', Code = ''bad_request'',
                  Raw = oops_body\<rparr>)"
proof -
  let ?r = "test_request ''DELETE'' ''/api/client/domains/domain-1'' []"
  let ?w = "test_world\<lparr>built := [?r]\<rparr>"
  let ?res = "\<lparr>Response_StatusCode = 400,
               Response_Body = \<lparr>content = oops_body, failure = None\<rparr>\<rparr>"
  have h: "httpClient (client ?w) = Some \<lparr>Timeout = defaultTimeout\<rparr> \<and>
    stub_server 400 oops_body \<lparr>Timeout = defaultTimeout\<rparr> ?r = Inr ?res \<and>
    400 \<le> Response_StatusCode ?res \<and>
    ReadAll_Limit (Response_Body ?res) (2 ^ 20) = (oops_body, None)"
    by (simp add: test_world_simps test_client_simps stub_server_def ReadAll_Limit_def
        body_lengths)
  from APIError_of_error_response[where w = ?w and hc = "\<lparr>Timeout = defaultTimeout\<rparr>"
      and rt = "stub_server 400 oops_body" and req = ?r and res = ?res and body = oops_body
      and unmarshal = no_target and out = None, THEN conjunct1, rule_format, OF h]
  have "fst (fst (do (stub_server 400 oops_body) no_target ?r None ?w)) = Some (parseAPIError ?res)" .
  moreover have "parseAPIError ?res
     = API \<lparr>StatusCode = 400, Message = ''oops'', Code = ''bad_request'', Raw = oops_body\<rparr>"
    by (simp add: parseAPIError_eq body_lengths json_Unmarshal_oops)
  ultimately show ?thesis
    by (simp add: DeleteDomain_test_world case_prod_beta)
qed

text \<open>When the body cannot be read to its end, \<open>do\<close> returns the read error and no
  \<^verbatim>\<open>APIError\<close>, whatever the status.\<close>

theorem read_failure_counterexample:
  "fst (DeleteDomain (broken_server 500 ''par'') (Some Background) ''domain-1'' test_world)
     = Some (WrapError ''enzonix: read response: '' (ExternalError ''unexpected EOF''))"
  by (simp add: DeleteDomain_test_world do_test_world broken_server_def ReadAll_Limit_def)

text \<open>
  C2, as the code has it. For a body that is not empty, the \<open>Raw\<close> field of the error
  is the body (as read, at most 1 MiB) exactly on the path where the body decodes
  without error. When decoding fails, \<open>Raw\<close> is what the decoder left (empty for a body
  that is not valid JSON), and the text of the body is kept, trimmed, in the message.
\<close>

theorem APIError_Raw_when_decoded:
  "(httpClient (client w) = Some hc \<and> rt hc req = Inr res \<and> 400 \<le> Response_StatusCode res \<and>
    ReadAll_Limit (Response_Body res) (2 ^ 20) = (body, None) \<longrightarrow>
      fst (fst (do rt unmarshal req out w)) = Some (parseAPIError res))
   \<and> (body = take (2 ^ 20) (content (Response_Body res)) \<and> body \<noteq> [] \<longrightarrow>
       (\<exists>e. parseAPIError res = API e
          \<and> (snd (json_Unmarshal body (newAPIError (Response_StatusCode res))) = None \<longrightarrow>
                Raw e = body)
          \<and> (snd (json_Unmarshal body (newAPIError (Response_StatusCode res))) \<noteq> None \<longrightarrow>
                Raw e = Raw (fst (json_Unmarshal body (newAPIError (Response_StatusCode res))))
              \<and> Message e = TrimSpace body)
          \<and> (\<not> checkValid body \<longrightarrow> Raw e = [] \<and> Message e = TrimSpace body)))"
proof (intro conjI impI)
  assume "httpClient (client w) = Some hc \<and> rt hc req = Inr res \<and>
    400 \<le> Response_StatusCode res \<and>
    ReadAll_Limit (Response_Body res) (2 ^ 20) = (body, None)"
  then show "fst (fst (do rt unmarshal req out w)) = Some (parseAPIError res)"
    using do_error_status(1) by blast
next
  assume b: "body = take (2 ^ 20) (content (Response_Body res)) \<and> body \<noteq> []"
  define e0 where "e0 = newAPIError (Response_StatusCode res)"
  define e where "e = (case json_Unmarshal body e0 of
                  (e', Some err) \<Rightarrow> e'\<lparr>Message := TrimSpace body\<rparr>
                | (e', None) \<Rightarrow> e'\<lparr>Raw := body\<rparr>)"
  from b have b2: "body \<noteq> []"
    by (rule conjunct2)
  from b [THEN conjunct1] have b1: "take (2 ^ 20) (content (Response_Body res)) = body"
    by (rule sym)
  have p: "parseAPIError res = API e"
    unfolding e_def e0_def parseAPIError_eq[of res] Let_def b1 using b2 by simp
  have ok: "snd (json_Unmarshal body e0) = None \<longrightarrow> Raw e = body"
    by (cases "json_Unmarshal body e0") (auto simp: e_def)
  have bad: "snd (json_Unmarshal body e0) \<noteq> None \<longrightarrow>
      Raw e = Raw (fst (json_Unmarshal body e0)) \<and> Message e = TrimSpace body"
    by (cases "json_Unmarshal body e0") (auto simp: e_def)
  have inv: "\<not> checkValid body \<longrightarrow> Raw e = [] \<and> Message e = TrimSpace body"
    by (simp add: e_def e0_def json_Unmarshal_def newAPIError_def)
  show "\<exists>e. parseAPIError res = API e
          \<and> (snd (json_Unmarshal body (newAPIError (Response_StatusCode res))) = None \<longrightarrow>
                Raw e = body)
          \<and> (snd (json_Unmarshal body (newAPIError (Response_StatusCode res))) \<noteq> None \<longrightarrow>
                Raw e = Raw (fst (json_Unmarshal body (newAPIError (Response_StatusCode res))))
              \<and> Message e = TrimSpace body)
          \<and> (\<not> checkValid body \<longrightarrow> Raw e = [] \<and> Message e = TrimSpace body)"
    by (intro exI[of _ e] conjI)
       (rule p ok[unfolded e0_def] bad[unfolded e0_def] inv)+
qed

text \<open>\<open>ExportBindZone\<close> on a status 400 with the JSON body: \<open>parseAPIError\<close> keeps the
  body in \<open>Raw\<close>.\<close>

theorem APIError_Raw_when_decoded_witness:
  "fst (ExportBindZone (stub_server 400 oops_body) (Some Background) ''domain-1'' test_world)
     = ([], Some (API \<lparr>StatusCode = 400, Message = ''oops'', Code = ''bad_request'',
                        Raw = oops_body\<rparr>))"
proof -
  let ?res = "\<lparr>Response_StatusCode = 400,
               Response_Body = \<lparr>content = oops_body, failure = None\<rparr>\<rparr>"
  have h: "oops_body = take (2 ^ 20) (content (Response_Body ?res)) \<and> oops_body \<noteq> []"
    by (simp add: body_lengths)
  from APIError_Raw_when_decoded[where res = ?res and body = oops_body, THEN conjunct2,
      rule_format, OF h]
  have "\<exists>e. parseAPIError ?res = API e \<and> Raw e = oops_body"
    by (auto simp: json_Unmarshal_oops)
  then obtain e where e: "parseAPIError ?res = API e" and raw: "Raw e = oops_body"
    by blast
  have "parseAPIError ?res
     = API \<lparr>StatusCode = 400, Message = ''oops'', Code = ''bad_request'', Raw = oops_body\<rparr>"
    by (simp add: parseAPIError_eq body_lengths json_Unmarshal_oops)
  with e raw have p: "parseAPIError ?res
     = API \<lparr>StatusCode = 400, Message = ''oops'', Code = ''bad_request'', Raw = Raw e\<rparr>"
    by simp
  have "fst (ExportBindZone (stub_server 400 oops_body) (Some Background) ''domain-1'' test_world)
     = ([], Some (parseAPIError ?res))"
    by (simp add: ExportBindZone_def requireID_def domain1_simps clientAPIPrefix_def
        newRequest_export test_world_simps test_client_simps stub_server_def Let_def)
  with p raw show ?thesis by simp
qed

text \<open>A plain-text body: the error has the trimmed text as its message and an empty
  \<open>Raw\<close>; the bytes of the body are not kept.\<close>

theorem plain_text_Raw_counterexample:
  "fst (DeleteDomain (stub_server 404 not_found_body) (Some Background) ''domain-1'' test_world)
     = Some (API \<lparr>StatusCode = 404, Message = ''not found'', Code = [], Raw = []\<rparr>)"
  by (simp add: DeleteDomain_test_world do_test_world stub_server_def ReadAll_Limit_def
      body_lengths json_Unmarshal_not_found)

end
